theory Spec2Isabelle
  imports Main "HOL-Library.Word" "HOL-Library.Sublist"
begin

unbundle bit_operations_syntax

section \<open>JavaScript values\<close>

text \<open>
  A JavaScript string is a sequence of 16-bit code units; a \<open>Uint8Array\<close> is a sequence
  of bytes. A thrown value is either an \<open>Error\<close> (or a subclass: \<open>TypeError\<close>,
  \<open>SyntaxError\<close>, \<open>DOMException\<close>) carrying its message, or some other value; the
  route handlers only ask \<open>error instanceof Error\<close> and read \<open>error.message\<close>.
  A promise that rejects, or a call that throws, is \<open>Inl\<close> of the thrown value.
\<close>

type_synonym code_unit = "16 word"
type_synonym jsstring = "code_unit list"
type_synonym byte = "8 word"

datatype exn = Error jsstring | NonError

definition js :: "string \<Rightarrow> jsstring" where
  "js s = map of_char s"

text \<open>
  \<open>Date.now()\<close> is an integer time value of magnitude at most \<open>8.64e15\<close>, below
  \<open>2^53\<close>; on that range the arithmetic of JavaScript Numbers is exact, so an integer
  Number is an \<open>int\<close> and \<open>NaN\<close> is \<open>None\<close>.
\<close>

subsection \<open>\<open>Number.prototype.toString\<close> and \<open>parseInt(_, 10)\<close>\<close>

fun digits :: "nat \<Rightarrow> jsstring" where
  "digits n = (if n < 10 then [of_nat (48 + n)] else digits (n div 10) @ [of_nat (48 + n mod 10)])"

declare digits.simps [simp del]

definition Number_toString :: "int \<Rightarrow> jsstring" where
  "Number_toString n = (if n < 0 then 45 # digits (nat (- n)) else digits (nat n))"

text \<open>\<open>WhiteSpace\<close> and \<open>LineTerminator\<close> of ECMAScript, which \<open>parseInt\<close> skips.\<close>

definition isStrWhiteSpaceChar :: "code_unit \<Rightarrow> bool" where
  "isStrWhiteSpaceChar c \<longleftrightarrow>
     c \<in> {0x09, 0x0A, 0x0B, 0x0C, 0x0D, 0x20, 0xA0, 0x1680, 0x2028, 0x2029, 0x202F, 0x205F,
          0x3000, 0xFEFF} \<or> (0x2000 \<le> c \<and> c \<le> 0x200A)"

definition isDigit :: "code_unit \<Rightarrow> bool" where
  "isDigit c \<longleftrightarrow> 48 \<le> c \<and> c \<le> 57"

definition digits_value :: "jsstring \<Rightarrow> nat" where
  "digits_value z = foldl (\<lambda>a c. 10 * a + (unat c - 48)) 0 z"

text \<open>
  \<open>parseInt(string, 10)\<close>: skip leading white space, read an optional sign, then the
  longest run of decimal digits; \<open>NaN\<close> when that run is empty. With radix 10 no
  \<open>0x\<close> prefix is stripped.
\<close>

definition parseInt :: "jsstring \<Rightarrow> int option" where
  "parseInt s =
     (let t = dropWhile isStrWhiteSpaceChar s;
          sign = (if t \<noteq> [] \<and> hd t = 45 then - 1 else 1);
          u = (if t \<noteq> [] \<and> (hd t = 43 \<or> hd t = 45) then tl t else t);
          z = takeWhile isDigit u
      in if z = [] then None else Some (sign * int (digits_value z)))"

subsection \<open>\<open>String.prototype.split\<close> with a one-character separator\<close>

fun split :: "code_unit \<Rightarrow> jsstring \<Rightarrow> jsstring list" where
  "split sep [] = [[]]"
| "split sep (c # cs) =
     (if c = sep then [] # split sep cs
      else (case split sep cs of [] \<Rightarrow> [[c]] | p # ps \<Rightarrow> (c # p) # ps))"

subsection \<open>\<open>btoa\<close> and \<open>atob\<close>\<close>

definition b64char :: "nat \<Rightarrow> code_unit" where
  "b64char n =
     (if n < 26 then of_nat (65 + n)
      else if n < 52 then of_nat (71 + n)
      else if n < 62 then of_nat (n - 4)
      else if n = 62 then 43 else 47)"

definition is_b64 :: "code_unit \<Rightarrow> bool" where
  "is_b64 c \<longleftrightarrow> (65 \<le> c \<and> c \<le> 90) \<or> (97 \<le> c \<and> c \<le> 122) \<or> (48 \<le> c \<and> c \<le> 57)
     \<or> c = 43 \<or> c = 47"

definition b64val :: "code_unit \<Rightarrow> nat" where
  "b64val c =
     (if 65 \<le> c \<and> c \<le> 90 then unat c - 65
      else if 97 \<le> c \<and> c \<le> 122 then unat c - 71
      else if 48 \<le> c \<and> c \<le> 57 then unat c + 4
      else if c = 43 then 62 else 63)"

text \<open>The 6-bit groups of a byte sequence; a last group is filled with zero bits.\<close>

fun sextets :: "nat list \<Rightarrow> nat list" where
  "sextets (a # b # c # r) =
     [a div 4, (a mod 4) * 16 + b div 16, (b mod 16) * 4 + c div 64, c mod 64] @ sextets r"
| "sextets [a, b] = [a div 4, (a mod 4) * 16 + b div 16, (b mod 16) * 4]"
| "sextets [a] = [a div 4, (a mod 4) * 16]"
| "sextets [] = []"

definition b64encode :: "byte list \<Rightarrow> jsstring" where
  "b64encode bs =
     map b64char (sextets (map unat bs)) @ replicate ((3 - length bs mod 3) mod 3) 61"

text \<open>
  \<open>btoa(data)\<close> throws \<open>InvalidCharacterError\<close> when a code unit of \<open>data\<close> is above
  \<open>0xFF\<close>; otherwise the code units are bytes, encoded in base64 with padding.
\<close>

definition InvalidCharacterError :: exn where
  "InvalidCharacterError = Error (js ''Invalid character'')"

definition btoa :: "jsstring \<Rightarrow> exn + jsstring" where
  "btoa s = (if \<exists>c \<in> set s. 255 < c then Inl InvalidCharacterError
             else Inr (b64encode (map ucast s)))"

text \<open>
  \<open>atob(data)\<close> is the forgiving base64 decoding of the HTML standard: ASCII white space
  is removed; when the length is then a multiple of 4, one or two trailing \<open>=\<close> are
  removed; a length of remainder 1, or any code unit outside the base64 alphabet, is an
  \<open>InvalidCharacterError\<close>; the 6-bit groups are joined into bytes and left-over bits
  are dropped.
\<close>

definition is_ascii_whitespace :: "code_unit \<Rightarrow> bool" where
  "is_ascii_whitespace c \<longleftrightarrow> c \<in> {0x09, 0x0A, 0x0C, 0x0D, 0x20}"

definition strip_padding :: "jsstring \<Rightarrow> jsstring" where
  "strip_padding d =
     (case rev d of
        c1 # c2 # r \<Rightarrow> if c1 = 61 \<and> c2 = 61 then rev r else if c1 = 61 then rev (c2 # r) else d
      | [c1] \<Rightarrow> if c1 = 61 then [] else d
      | [] \<Rightarrow> d)"

fun b64decode :: "nat list \<Rightarrow> nat list" where
  "b64decode (w # x # y # z # r) =
     [w * 4 + x div 16, (x mod 16) * 16 + y div 4, (y mod 4) * 64 + z] @ b64decode r"
| "b64decode [w, x, y] = [w * 4 + x div 16, (x mod 16) * 16 + y div 4]"
| "b64decode [w, x] = [w * 4 + x div 16]"
| "b64decode [w] = []"
| "b64decode [] = []"

definition atob :: "jsstring \<Rightarrow> exn + jsstring" where
  "atob s =
     (let d0 = filter (\<lambda>c. \<not> is_ascii_whitespace c) s;
          d = (if length d0 mod 4 = 0 then strip_padding d0 else d0)
      in if length d mod 4 = 1 then Inl InvalidCharacterError
         else if \<exists>c \<in> set d. \<not> is_b64 c then Inl InvalidCharacterError
         else Inr (map of_nat (b64decode (map b64val d))))"

text \<open>\<open>String.fromCharCode(...bytes)\<close>: one code unit per byte.\<close>

definition fromCharCode :: "byte list \<Rightarrow> jsstring" where
  "fromCharCode bs = map ucast bs"

subsection \<open>\<open>TextEncoder.encode\<close>\<close>

text \<open>
  The string is first read as Unicode scalar values: a high surrogate followed by a low
  surrogate is one supplementary code point, any other surrogate is replaced by
  \<open>U+FFFD\<close>. Each scalar value is then written in UTF-8.
\<close>

definition is_high_surrogate :: "nat \<Rightarrow> bool" where
  "is_high_surrogate c \<longleftrightarrow> 0xD800 \<le> c \<and> c \<le> 0xDBFF"

definition is_low_surrogate :: "nat \<Rightarrow> bool" where
  "is_low_surrogate c \<longleftrightarrow> 0xDC00 \<le> c \<and> c \<le> 0xDFFF"

definition scalar :: "nat \<Rightarrow> nat" where
  "scalar c = (if is_high_surrogate c \<or> is_low_surrogate c then 0xFFFD else c)"

fun scalars :: "nat list \<Rightarrow> nat list" where
  "scalars (c # d # r) =
     (if is_high_surrogate c \<and> is_low_surrogate d
      then (0x10000 + (c - 0xD800) * 1024 + (d - 0xDC00)) # scalars r
      else scalar c # scalars (d # r))"
| "scalars [c] = [scalar c]"
| "scalars [] = []"

definition utf8_bytes :: "nat \<Rightarrow> nat list" where
  "utf8_bytes cp =
     (if cp < 0x80 then [cp]
      else if cp < 0x800 then [0xC0 + cp div 64, 0x80 + cp mod 64]
      else if cp < 0x10000 then [0xE0 + cp div 4096, 0x80 + (cp div 64) mod 64, 0x80 + cp mod 64]
      else [0xF0 + cp div 262144, 0x80 + (cp div 4096) mod 64, 0x80 + (cp div 64) mod 64,
            0x80 + cp mod 64])"

definition encode :: "jsstring \<Rightarrow> byte list" where
  "encode s = map of_nat (concat (map utf8_bytes (scalars (map unat s))))"

subsection \<open>\<open>crypto.subtle.sign('HMAC', key, data)\<close> with SHA-256\<close>

type_synonym u32 = "32 word"

definition rotr :: "nat \<Rightarrow> u32 \<Rightarrow> u32" where
  "rotr n x = drop_bit n x OR push_bit (32 - n) x"

definition Ch :: "u32 \<Rightarrow> u32 \<Rightarrow> u32 \<Rightarrow> u32" where
  "Ch x y z = (x AND y) XOR (NOT x AND z)"

definition Maj :: "u32 \<Rightarrow> u32 \<Rightarrow> u32 \<Rightarrow> u32" where
  "Maj x y z = (x AND y) XOR (x AND z) XOR (y AND z)"

definition bsig0 :: "u32 \<Rightarrow> u32" where
  "bsig0 x = rotr 2 x XOR rotr 13 x XOR rotr 22 x"

definition bsig1 :: "u32 \<Rightarrow> u32" where
  "bsig1 x = rotr 6 x XOR rotr 11 x XOR rotr 25 x"

definition ssig0 :: "u32 \<Rightarrow> u32" where
  "ssig0 x = rotr 7 x XOR rotr 18 x XOR drop_bit 3 x"

definition ssig1 :: "u32 \<Rightarrow> u32" where
  "ssig1 x = rotr 17 x XOR rotr 19 x XOR drop_bit 10 x"

text \<open>
  The constants of SHA-256 are the first 32 bits of the fractional parts of the cube roots
  (round constants) and square roots (initial hash value) of the first primes.
\<close>

definition iroot :: "nat \<Rightarrow> nat \<Rightarrow> nat" where
  "iroot k n = fold (\<lambda>i r. if (r + 2 ^ i) ^ k \<le> n then r + 2 ^ i else r) (rev [0..<40]) 0"

definition frac32 :: "nat \<Rightarrow> nat \<Rightarrow> u32" where
  "frac32 k p = of_nat (iroot k (p * 2 ^ (32 * k)))"

definition primes :: "nat list" where
  "primes = filter (\<lambda>p. list_all (\<lambda>d. p mod d \<noteq> 0) [2..<p]) [2..<312]"

definition K256 :: "u32 list" where
  "K256 = map (frac32 3) primes"

type_synonym sha_state = "u32 \<times> u32 \<times> u32 \<times> u32 \<times> u32 \<times> u32 \<times> u32 \<times> u32"

definition H256 :: sha_state where
  "H256 = (frac32 2 2, frac32 2 3, frac32 2 5, frac32 2 7,
           frac32 2 11, frac32 2 13, frac32 2 17, frac32 2 19)"

text \<open>The message schedule; \<open>ws\<close> holds the words computed so far, newest first.\<close>

fun extend :: "nat \<Rightarrow> u32 list \<Rightarrow> u32 list" where
  "extend 0 ws = ws"
| "extend (Suc n) ws =
     extend n ((ssig1 (ws ! 1) + ws ! 6 + ssig0 (ws ! 14) + ws ! 15) # ws)"

definition round :: "u32 \<times> u32 \<Rightarrow> sha_state \<Rightarrow> sha_state" where
  "round kw st = (case (kw, st) of ((k, w), (a, b, c, d, e, f, g, h)) \<Rightarrow>
     (let t1 = h + bsig1 e + Ch e f g + k + w;
          t2 = bsig0 a + Maj a b c
      in (t1 + t2, a, b, c, d + t1, e, f, g)))"

definition add_state :: "sha_state \<Rightarrow> sha_state \<Rightarrow> sha_state" where
  "add_state s t =
     (case (s, t) of ((a, b, c, d, e, f, g, h), (a', b', c', d', e', f', g', h')) \<Rightarrow>
        (a + a', b + b', c + c', d + d', e + e', f + f', g + g', h + h'))"

definition compress :: "sha_state \<Rightarrow> u32 list \<Rightarrow> sha_state" where
  "compress st blk = add_state st (fold round (zip K256 (rev (extend 48 (rev blk)))) st)"

fun be32 :: "byte list \<Rightarrow> u32 list" where
  "be32 (a # b # c # d # r) =
     (push_bit 24 (ucast a) OR push_bit 16 (ucast b) OR push_bit 8 (ucast c) OR ucast d) # be32 r"
| "be32 _ = []"

fun blocks :: "byte list \<Rightarrow> byte list list" where
  "blocks [] = []"
| "blocks (b # bs) = take 64 (b # bs) # blocks (drop 63 bs)"

definition word_bytes :: "u32 \<Rightarrow> byte list" where
  "word_bytes w = [ucast (drop_bit 24 w), ucast (drop_bit 16 w), ucast (drop_bit 8 w), ucast w]"

definition length_bytes :: "nat \<Rightarrow> byte list" where
  "length_bytes n = map (\<lambda>i. of_nat (n div 256 ^ i)) [7, 6, 5, 4, 3, 2, 1, 0]"

definition pad :: "byte list \<Rightarrow> byte list" where
  "pad m = m @ [0x80] @ replicate ((119 - length m mod 64) mod 64) 0
             @ length_bytes (8 * length m)"

definition state_words :: "sha_state \<Rightarrow> u32 list" where
  "state_words s = (case s of (a, b, c, d, e, f, g, h) \<Rightarrow> [a, b, c, d, e, f, g, h])"

definition sha256 :: "byte list \<Rightarrow> byte list" where
  "sha256 m = concat (map word_bytes (state_words (foldl compress H256 (map be32 (blocks (pad m))))))"

definition hmac_sha256 :: "byte list \<Rightarrow> byte list \<Rightarrow> byte list" where
  "hmac_sha256 key msg =
     (let k0 = (if 64 < length key then sha256 key else key);
          k = k0 @ replicate (64 - length k0) 0
      in sha256 (map (\<lambda>b. b XOR 0x5c) k @ sha256 (map (\<lambda>b. b XOR 0x36) k @ msg)))"

section \<open>The preview token\<close>

text \<open>Of the worker's environment, the bindings that the proxy reads.\<close>

record env =
  JWT_SECRET :: "jsstring option"
  PLAID_CLIENT_ID :: "jsstring option"
  PLAID_SECRET :: "jsstring option"
  PLAID_ENV :: "jsstring option"

text \<open>\<open>!s\<close> for a value that is a string or \<open>undefined\<close>.\<close>

definition missing :: "jsstring option \<Rightarrow> bool" where
  "missing s \<longleftrightarrow> s = None \<or> s = Some []"

definition maxAge :: int where
  "maxAge = 24 * 60 * 60 * 1000"

text \<open>
  The signature both functions compute:
  \<open>btoa(String.fromCharCode(...new Uint8Array(sign(key(secret), encode(`${agentId}.${timestamp}`)))))\<close>.
\<close>

definition signatureBase64 :: "jsstring \<Rightarrow> jsstring \<Rightarrow> jsstring \<Rightarrow> exn + jsstring" where
  "signatureBase64 secret agentId timestamp =
     btoa (fromCharCode (hmac_sha256 (encode secret) (encode (agentId @ 46 # timestamp))))"

text \<open>\<open>generatePreviewToken(env, agentId)\<close>, with \<open>Date.now()\<close> as the argument \<open>now\<close>.\<close>

definition generatePreviewToken :: "env \<Rightarrow> int \<Rightarrow> jsstring \<Rightarrow> exn + jsstring" where
  "generatePreviewToken e now agentId =
     (let timestamp = Number_toString now in
      case btoa agentId of
        Inl x \<Rightarrow> Inl x
      | Inr encodedAgentId \<Rightarrow>
          if missing (JWT_SECRET e) then Inl (Error (js ''JWT_SECRET not configured''))
          else (case signatureBase64 (the (JWT_SECRET e)) agentId timestamp of
                  Inl x \<Rightarrow> Inl x
                | Inr sig \<Rightarrow> Inr (encodedAgentId @ 46 # timestamp @ 46 # sig)))"

text \<open>The body of the \<open>try\<close> block of \<open>validatePreviewToken\<close>.\<close>

definition validate_try :: "env \<Rightarrow> int \<Rightarrow> jsstring \<Rightarrow> exn + jsstring option" where
  "validate_try e now token =
     (let parts = split 46 token in
      if length parts \<noteq> 3 then Inr None
      else
        let encodedAgentId = parts ! 0; timestamp = parts ! 1; signature = parts ! 2 in
        case atob encodedAgentId of
          Inl x \<Rightarrow> Inl x
        | Inr agentId \<Rightarrow>
            (case parseInt timestamp of
               None \<Rightarrow> Inr None
             | Some tokenTime \<Rightarrow>
                 if now - tokenTime > maxAge then Inr None
                 else if missing (JWT_SECRET e) then Inr None
                 else (case signatureBase64 (the (JWT_SECRET e)) agentId timestamp of
                         Inl x \<Rightarrow> Inl x
                       | Inr expectedSignatureBase64 \<Rightarrow>
                           if signature \<noteq> expectedSignatureBase64 then Inr None
                           else Inr (Some agentId))))"

text \<open>
  \<open>validatePreviewToken(env, token)\<close>: \<open>null\<close> at once for an empty token, and \<open>null\<close>
  from the \<open>catch\<close> clause for whatever the \<open>try\<close> block throws. The result is how the
  returned promise settles.
\<close>

definition validatePreviewToken :: "env \<Rightarrow> int \<Rightarrow> jsstring \<Rightarrow> exn + jsstring option" where
  "validatePreviewToken e now token =
     (if token = [] then Inr None
      else case validate_try e now token of Inl x \<Rightarrow> Inr None | Inr r \<Rightarrow> Inr r)"

section \<open>JSON values, requests and responses\<close>

text \<open>
  A value read from JSON or built by an object literal. Numbers of the provider's payloads
  are passed through untouched, so integers stand for them. In an object a later binding
  of a key overrides an earlier one.
\<close>

datatype jsval =
    JUndefined
  | JNull
  | JBool bool
  | JNum int
  | JStr jsstring
  | JArr "jsval list"
  | JObj "(jsstring \<times> jsval) list"

text \<open>\<open>!!v\<close>\<close>

fun truthy :: "jsval \<Rightarrow> bool" where
  "truthy JUndefined = False"
| "truthy JNull = False"
| "truthy (JBool b) = b"
| "truthy (JNum n) = (n \<noteq> 0)"
| "truthy (JStr s) = (s \<noteq> [])"
| "truthy (JArr _) = True"
| "truthy (JObj _) = True"

definition TypeError :: exn where
  "TypeError = Error (js ''Cannot read properties of undefined'')"

text \<open>
  The property read \<open>v.k\<close> for a key \<open>k\<close> that no prototype defines: a \<open>TypeError\<close> on
  \<open>undefined\<close> and \<open>null\<close>, the bound value on an object that has the key,
  \<open>undefined\<close> otherwise.
\<close>

definition get :: "jsval \<Rightarrow> string \<Rightarrow> exn + jsval" where
  "get v k =
     (case v of
        JUndefined \<Rightarrow> Inl TypeError
      | JNull \<Rightarrow> Inl TypeError
      | JObj kvs \<Rightarrow> Inr (case map_of (rev kvs) (js k) of Some x \<Rightarrow> x | None \<Rightarrow> JUndefined)
      | _ \<Rightarrow> Inr JUndefined)"

fun join :: "jsstring list \<Rightarrow> jsstring" where
  "join [] = []"
| "join [s] = s"
| "join (s # t # r) = s @ 44 # join (t # r)"

text \<open>\<open>String(v)\<close>, which \<open>new Error(v)\<close> applies to its message.\<close>

fun to_string :: "jsval \<Rightarrow> jsstring" where
  "to_string JUndefined = js ''undefined''"
| "to_string JNull = js ''null''"
| "to_string (JBool b) = (if b then js ''true'' else js ''false'')"
| "to_string (JNum n) = Number_toString n"
| "to_string (JStr s) = s"
| "to_string (JArr vs) =
     join (map (\<lambda>v. if v = JUndefined \<or> v = JNull then [] else to_string v) vs)"
| "to_string (JObj _) = js ''[object Object]''"

datatype http_method = GET | POST | OPTIONS | PUT | PATCH | DELETE | HEAD

text \<open>
  Of a request, what the proxy reads: method and path, the two headers, and what
  \<open>await c.req.json()\<close> settles to.
\<close>

record request =
  req_method :: http_method
  req_path :: jsstring
  header_X_Preview_Token :: "jsstring option"
  header_Origin :: "jsstring option"
  req_json :: "exn + jsval"

text \<open>
  Of a response: the status, the JSON body if there is one, and the origin that the CORS
  middleware allowed, if any.
\<close>

record response =
  status :: nat
  json_body :: "jsval option"
  allow_origin :: "jsstring option"

text \<open>\<open>c.json(object, status)\<close>; \<open>JSON.stringify\<close> leaves out the \<open>undefined\<close> properties.\<close>

definition json :: "(string \<times> jsval) list \<Rightarrow> nat \<Rightarrow> response" where
  "json props st =
     \<lparr>status = st,
      json_body = Some (JObj (map (\<lambda>(k, v). (js k, v)) (filter (\<lambda>(k, v). v \<noteq> JUndefined) props))),
      allow_origin = None\<rparr>"

text \<open>What the framework answers when a handler throws: 500 with a plain-text body.\<close>

definition uncaught :: "exn \<Rightarrow> response" where
  "uncaught x = \<lparr>status = 500, json_body = None, allow_origin = None\<rparr>"

text \<open>What the framework answers when no route matches: 404 with a plain-text body.\<close>

definition notFound :: response where
  "notFound = \<lparr>status = 404, json_body = None, allow_origin = None\<rparr>"

text \<open>A property of a JSON response body.\<close>

definition field :: "response \<Rightarrow> string \<Rightarrow> jsval" where
  "field r k =
     (case json_body r of
        Some (JObj kvs) \<Rightarrow> (case map_of (rev kvs) (js k) of Some x \<Rightarrow> x | None \<Rightarrow> JUndefined)
      | _ \<Rightarrow> JUndefined)"

section \<open>The collaborators of the proxy\<close>

text \<open>
  The provider is reached through \<open>fetch\<close>, the tenant's agent through \<open>getAgentStub\<close> and
  the two methods of the stub. None of them is part of the proxy; each is a parameter:
  \<open>fetch\<close> maps the URL and the JSON body of a POST to a rejection or to a status with
  what \<open>response.json()\<close> settles to; \<open>getAgentStub\<close> and \<open>storePlaidAccessToken\<close> give the
  thrown value when they reject; \<open>getPlaidAccessToken\<close> gives the thrown value or the
  value it resolves to; \<open>getPreviewDomain\<close> gives the configured preview domain.
\<close>

datatype fetch_result = Rejected exn | Responded nat "exn + jsval"

record world =
  fetch :: "jsstring \<Rightarrow> jsval \<Rightarrow> fetch_result"
  getAgentStub :: "jsstring \<Rightarrow> exn option"
  getPlaidAccessToken :: "jsstring \<Rightarrow> exn + jsval"
  storePlaidAccessToken :: "jsstring \<Rightarrow> jsval \<Rightarrow> jsval \<Rightarrow> exn option"
  getPreviewDomain :: "jsstring option"

text \<open>The calls a handler makes, in the order it makes them.\<close>

datatype event =
    Fetch jsstring jsval
  | GetAgentStub jsstring
  | GetPlaidAccessToken jsstring
  | StorePlaidAccessToken jsstring jsval jsval

section \<open>The Plaid proxy\<close>

definition PLAID_SANDBOX_URL :: jsstring where
  "PLAID_SANDBOX_URL = js ''https://sandbox.plaid.com''"

definition PLAID_DEVELOPMENT_URL :: jsstring where
  "PLAID_DEVELOPMENT_URL = js ''https://development.plaid.com''"

definition PLAID_PRODUCTION_URL :: jsstring where
  "PLAID_PRODUCTION_URL = js ''https://production.plaid.com''"

definition getPlaidBaseUrl :: "env \<Rightarrow> jsstring" where
  "getPlaidBaseUrl e =
     (let plaidEnv = (if missing (PLAID_ENV e) then js ''sandbox'' else the (PLAID_ENV e)) in
      if plaidEnv = js ''production'' then PLAID_PRODUCTION_URL
      else if plaidEnv = js ''development'' then PLAID_DEVELOPMENT_URL
      else PLAID_SANDBOX_URL)"

text \<open>\<open>response.ok\<close>\<close>

definition ok :: "nat \<Rightarrow> bool" where
  "ok st \<longleftrightarrow> 200 \<le> st \<and> st \<le> 299"

text \<open>
  \<open>plaidRequest(env, endpoint, body)\<close>. \<open>plaid_payload\<close> is the object
  \<open>{ client_id, secret, ...body }\<close> that is sent; the keys of \<open>body\<close> at the four call
  sites are never \<open>client_id\<close> or \<open>secret\<close>, so the spread appends them.
\<close>

definition plaid_payload :: "env \<Rightarrow> (string \<times> jsval) list \<Rightarrow> jsval" where
  "plaid_payload e props =
     JObj (map (\<lambda>(k, v). (js k, v))
       ([(''client_id'', JStr (the (PLAID_CLIENT_ID e))),
         (''secret'', JStr (the (PLAID_SECRET e)))] @ props))"

definition plaidRequest ::
  "world \<Rightarrow> env \<Rightarrow> jsstring \<Rightarrow> (string \<times> jsval) list \<Rightarrow> (exn + jsval) \<times> event list" where
  "plaidRequest w e endpoint props =
     (let baseUrl = getPlaidBaseUrl e in
      if missing (PLAID_CLIENT_ID e) \<or> missing (PLAID_SECRET e)
      then (Inl (Error (js ''Plaid credentials not configured'')), [])
      else
        let url = baseUrl @ endpoint; payload = plaid_payload e props
        in (case fetch w url payload of
              Rejected x \<Rightarrow> Inl x
            | Responded st settled \<Rightarrow>
                if \<not> ok st then
                  (case settled of
                     Inl x \<Rightarrow> Inl x
                   | Inr err \<Rightarrow>
                       (case get err ''error_message'' of
                          Inl x \<Rightarrow> Inl x
                        | Inr m \<Rightarrow>
                            Inl (Error (if truthy m then to_string m
                                        else js ''Plaid API error: '' @ Number_toString (int st)))))
                else settled,
            [Fetch url payload]))"

text \<open>\<open>error instanceof Error ? error.message : fallback\<close>\<close>

definition message_or :: "exn \<Rightarrow> string \<Rightarrow> jsstring" where
  "message_or x fallback = (case x of Error m \<Rightarrow> m | NonError \<Rightarrow> js fallback)"

definition failure :: "exn \<Rightarrow> string \<Rightarrow> response" where
  "failure x fallback =
     json [(''success'', JBool False), (''error'', JStr (message_or x fallback))] 500"

text \<open>
  Each of the five handlers starts with the same lines: 401 when \<open>!previewToken\<close>, then
  \<open>validatePreviewToken\<close> and 403 when \<open>!agentId\<close>. The result is the response to return
  at once, or the agent id.
\<close>

definition authenticate :: "env \<Rightarrow> int \<Rightarrow> request \<Rightarrow> response + jsstring" where
  "authenticate e now req =
     (let previewToken = header_X_Preview_Token req in
      if missing previewToken then Inl (json [(''error'', JStr (js ''Missing preview token''))] 401)
      else
        (case validatePreviewToken e now (the previewToken) of
           Inl x \<Rightarrow> Inl (uncaught x)
         | Inr agentId \<Rightarrow>
             if missing agentId then Inl (json [(''error'', JStr (js ''Invalid preview token''))] 403)
             else Inr (the agentId)))"

text \<open>
  The statements of a \<open>try\<close> block run in sequence until one throws; the calls made so
  far are kept. \<open>pure\<close> is a statement with no call, \<open>lift\<close> an expression that may
  throw, \<open>andThen\<close> the sequencing, and \<open>catch\<close> the \<open>catch\<close> clause of the handlers.
\<close>

type_synonym 'a action = "(exn + 'a) \<times> event list"

definition pure :: "'a \<Rightarrow> 'a action" where
  "pure v = (Inr v, [])"

definition lift :: "exn + 'a \<Rightarrow> 'a action" where
  "lift r = (r, [])"

definition andThen :: "'a action \<Rightarrow> ('a \<Rightarrow> 'b action) \<Rightarrow> 'b action" where
  "andThen m f =
     (case m of
        (Inl x, evs) \<Rightarrow> (Inl x, evs)
      | (Inr v, evs) \<Rightarrow> (case f v of (r, evs') \<Rightarrow> (r, evs @ evs')))"

definition catch :: "response action \<Rightarrow> string \<Rightarrow> response \<times> event list" where
  "catch m fallback =
     (case m of (Inl x, evs) \<Rightarrow> (failure x fallback, evs) | (Inr r, evs) \<Rightarrow> (r, evs))"

definition call_getAgentStub :: "world \<Rightarrow> jsstring \<Rightarrow> unit action" where
  "call_getAgentStub w agentId =
     ((case getAgentStub w agentId of Some x \<Rightarrow> Inl x | None \<Rightarrow> Inr ()), [GetAgentStub agentId])"

definition call_getPlaidAccessToken :: "world \<Rightarrow> jsstring \<Rightarrow> jsval action" where
  "call_getPlaidAccessToken w agentId = (getPlaidAccessToken w agentId, [GetPlaidAccessToken agentId])"

definition call_storePlaidAccessToken :: "world \<Rightarrow> jsstring \<Rightarrow> jsval \<Rightarrow> jsval \<Rightarrow> unit action" where
  "call_storePlaidAccessToken w agentId access_token item_id =
     ((case storePlaidAccessToken w agentId access_token item_id of Some x \<Rightarrow> Inl x | None \<Rightarrow> Inr ()),
      [StorePlaidAccessToken agentId access_token item_id])"

text \<open>\<open>POST /api/proxy/plaid/link-token\<close>\<close>

definition link_token_route :: "world \<Rightarrow> env \<Rightarrow> int \<Rightarrow> request \<Rightarrow> response \<times> event list" where
  "link_token_route w e now req =
     (case authenticate e now req of
        Inl r \<Rightarrow> (r, [])
      | Inr agentId \<Rightarrow>
          catch
            (andThen (plaidRequest w e (js ''/link/token/create'')
                        [(''user'', JObj [(js ''client_user_id'', JStr agentId)]),
                         (''client_name'', JStr (js ''VibeSDK Preview'')),
                         (''products'', JArr [JStr (js ''transactions'')]),
                         (''country_codes'', JArr [JStr (js ''US'')]),
                         (''language'', JStr (js ''en''))])
               (\<lambda>response.
             andThen (lift (get response ''link_token'')) (\<lambda>link_token.
             andThen (lift (get response ''expiration'')) (\<lambda>expiration.
             pure (json [(''success'', JBool True), (''link_token'', link_token),
                         (''expiration'', expiration)] 200)))))
            ''Failed to create link token'')"

text \<open>
  \<open>POST /api/proxy/plaid/exchange-token\<close>. Reading \<open>body.public_token\<close> is outside the
  \<open>try\<close> block.
\<close>

definition exchange_token_route :: "world \<Rightarrow> env \<Rightarrow> int \<Rightarrow> request \<Rightarrow> response \<times> event list" where
  "exchange_token_route w e now req =
     (case authenticate e now req of
        Inl r \<Rightarrow> (r, [])
      | Inr agentId \<Rightarrow>
          (case req_json req of
             Inl x \<Rightarrow> (json [(''error'', JStr (js ''Invalid JSON body''))] 400, [])
           | Inr body \<Rightarrow>
               (case get body ''public_token'' of
                  Inl x \<Rightarrow> (uncaught x, [])
                | Inr public_token \<Rightarrow>
                    if \<not> truthy public_token
                    then (json [(''error'', JStr (js ''Missing public_token''))] 400, [])
                    else
                      catch
                        (andThen (plaidRequest w e (js ''/item/public_token/exchange'')
                                    [(''public_token'', public_token)])
                           (\<lambda>response.
                         andThen (call_getAgentStub w agentId) (\<lambda>_.
                         andThen (lift (get response ''access_token'')) (\<lambda>access_token.
                         andThen (lift (get response ''item_id'')) (\<lambda>item_id.
                         andThen (call_storePlaidAccessToken w agentId access_token item_id) (\<lambda>_.
                         pure (json [(''success'', JBool True), (''item_id'', item_id)] 200)))))))
                        ''Failed to exchange token'')))"

text \<open>\<open>GET /api/proxy/plaid/transactions\<close>\<close>

definition transactions_route :: "world \<Rightarrow> env \<Rightarrow> int \<Rightarrow> request \<Rightarrow> response \<times> event list" where
  "transactions_route w e now req =
     (case authenticate e now req of
        Inl r \<Rightarrow> (r, [])
      | Inr agentId \<Rightarrow>
          catch
            (andThen (call_getAgentStub w agentId) (\<lambda>_.
             andThen (call_getPlaidAccessToken w agentId) (\<lambda>accessToken.
             if \<not> truthy accessToken
             then pure (json [(''success'', JBool False),
                              (''error'', JStr (js ''No Plaid account connected'')),
                              (''needsConnection'', JBool True)] 400)
             else
               andThen (plaidRequest w e (js ''/transactions/sync'')
                          [(''access_token'', accessToken)])
                 (\<lambda>response.
               andThen (lift (get response ''added'')) (\<lambda>added.
               andThen (lift (get response ''has_more'')) (\<lambda>has_more.
               pure (json [(''success'', JBool True), (''transactions'', added),
                           (''has_more'', has_more)] 200)))))))
            ''Failed to fetch transactions'')"

text \<open>\<open>GET /api/proxy/plaid/accounts\<close>\<close>

definition accounts_route :: "world \<Rightarrow> env \<Rightarrow> int \<Rightarrow> request \<Rightarrow> response \<times> event list" where
  "accounts_route w e now req =
     (case authenticate e now req of
        Inl r \<Rightarrow> (r, [])
      | Inr agentId \<Rightarrow>
          catch
            (andThen (call_getAgentStub w agentId) (\<lambda>_.
             andThen (call_getPlaidAccessToken w agentId) (\<lambda>accessToken.
             if \<not> truthy accessToken
             then pure (json [(''success'', JBool False),
                              (''error'', JStr (js ''No Plaid account connected'')),
                              (''needsConnection'', JBool True)] 400)
             else
               andThen (plaidRequest w e (js ''/accounts/get'')
                          [(''access_token'', accessToken)])
                 (\<lambda>response.
               andThen (lift (get response ''accounts'')) (\<lambda>accounts.
               pure (json [(''success'', JBool True), (''accounts'', accounts)] 200))))))
            ''Failed to fetch accounts'')"

text \<open>\<open>GET /api/proxy/plaid/status\<close>\<close>

definition status_route :: "world \<Rightarrow> env \<Rightarrow> int \<Rightarrow> request \<Rightarrow> response \<times> event list" where
  "status_route w e now req =
     (case authenticate e now req of
        Inl r \<Rightarrow> (r, [])
      | Inr agentId \<Rightarrow>
          catch
            (andThen (call_getAgentStub w agentId) (\<lambda>_.
             andThen (call_getPlaidAccessToken w agentId) (\<lambda>accessToken.
             pure (json [(''success'', JBool True), (''connected'', JBool (truthy accessToken))]
                     200))))
            ''Failed to check status'')"

text \<open>The five endpoints that \<open>setupPlaidProxyRoutes\<close> registers.\<close>

datatype endpoint = LinkToken | ExchangeToken | Transactions | Accounts | Status

fun endpoint_method :: "endpoint \<Rightarrow> http_method" where
  "endpoint_method LinkToken = POST"
| "endpoint_method ExchangeToken = POST"
| "endpoint_method Transactions = GET"
| "endpoint_method Accounts = GET"
| "endpoint_method Status = GET"

fun endpoint_path :: "endpoint \<Rightarrow> jsstring" where
  "endpoint_path LinkToken = js ''/api/proxy/plaid/link-token''"
| "endpoint_path ExchangeToken = js ''/api/proxy/plaid/exchange-token''"
| "endpoint_path Transactions = js ''/api/proxy/plaid/transactions''"
| "endpoint_path Accounts = js ''/api/proxy/plaid/accounts''"
| "endpoint_path Status = js ''/api/proxy/plaid/status''"

fun handler :: "endpoint \<Rightarrow> world \<Rightarrow> env \<Rightarrow> int \<Rightarrow> request \<Rightarrow> response \<times> event list" where
  "handler LinkToken = link_token_route"
| "handler ExchangeToken = exchange_token_route"
| "handler Transactions = transactions_route"
| "handler Accounts = accounts_route"
| "handler Status = status_route"

text \<open>
  The router hands a request to the first registered handler with the request's method
  and path.
\<close>

definition matching :: "request \<Rightarrow> endpoint option" where
  "matching req =
     find (\<lambda>ep. endpoint_method ep = req_method req \<and> endpoint_path ep = req_path req)
       [LinkToken, ExchangeToken, Transactions, Accounts, Status]"

text \<open>The pattern \<open>/api/proxy/plaid/*\<close> of the middleware.\<close>

definition under_proxy :: "jsstring \<Rightarrow> bool" where
  "under_proxy p \<longleftrightarrow> p = js ''/api/proxy/plaid'' \<or> prefix (js ''/api/proxy/plaid/'') p"

text \<open>
  The origin the middleware allows: the request's, when it ends with a dot and the
  preview domain.
\<close>

definition allowed_origin :: "world \<Rightarrow> request \<Rightarrow> jsstring option" where
  "allowed_origin w req =
     (let origin = header_Origin req; previewDomain = getPreviewDomain w in
      if \<not> missing origin \<and> \<not> missing previewDomain
         \<and> suffix (46 # the previewDomain) (the origin)
      then origin else None)"

text \<open>
  \<open>setupPlaidProxyRoutes(app)\<close>, as the function from a request to the response: the
  middleware sets the CORS headers and answers a preflight with 204; any other request
  goes on to its handler.
\<close>

definition setupPlaidProxyRoutes ::
  "world \<Rightarrow> env \<Rightarrow> int \<Rightarrow> request \<Rightarrow> response \<times> event list" where
  "setupPlaidProxyRoutes w e now req =
     (if under_proxy (req_path req) \<and> req_method req = OPTIONS
      then (\<lparr>status = 204, json_body = None, allow_origin = allowed_origin w req\<rparr>, [])
      else
        (case (case matching req of None \<Rightarrow> (notFound, []) | Some ep \<Rightarrow> handler ep w e now req) of
           (r, evs) \<Rightarrow>
             (if under_proxy (req_path req) then r\<lparr>allow_origin := allowed_origin w req\<rparr> else r, evs)))"

section \<open>The configuration phase\<close>

text \<open>
  \<open>CurrentDevState\<close>, the \<open>pendingConfiguration\<close> field of \<open>PhasicState\<close> and the two
  methods of section 2.3 of the architecture plan.
\<close>

datatype CurrentDevState =
  IDLE | PHASE_CONFIGURING | PHASE_GENERATING | PHASE_IMPLEMENTING | REVIEWING | FINALIZING

record pendingConfiguration =
  requiredServices :: "jsstring list"
  configuredServices :: "jsstring list"
  configCardId :: jsstring

text \<open>Of the agent's state, the field that the configuration phase writes.\<close>

record PhasicState =
  pending :: "pendingConfiguration option"

datatype auth_type = oauth | api_key

record service_entry =
  service_id :: jsstring
  service_name :: jsstring
  service_type :: auth_type
  service_status :: jsstring

record configuration_card =
  cardId :: jsstring
  title :: jsstring
  card_message :: jsstring
  services :: "service_entry list"
  actions :: "jsstring list"

text \<open>
  What the two methods call and the plan does not define: the services that
  \<open>detectRequiredServices\<close> finds in the blueprint, \<open>secretsClient.has\<close>, and the display
  name and authentication type of a service.
\<close>

record agent =
  detectRequiredServices :: "jsstring list"
  has_secret :: "jsstring \<Rightarrow> bool"
  getServiceDisplayName :: "jsstring \<Rightarrow> jsstring"
  getServiceAuthType :: "jsstring \<Rightarrow> auth_type"

definition needsConfiguration :: "agent \<Rightarrow> bool" where
  "needsConfiguration a =
     (let detectedServices = detectRequiredServices a in
      if length detectedServices = 0 then False
      else \<exists>service \<in> set detectedServices. \<not> has_secret a service)"

text \<open>
  \<open>executeConfigurationPhase()\<close>: the next state of the state machine, the agent's state
  after \<open>setState\<close>, and the cards broadcast.
\<close>

definition executeConfigurationPhase ::
  "agent \<Rightarrow> int \<Rightarrow> PhasicState \<Rightarrow> CurrentDevState \<times> PhasicState \<times> configuration_card list" where
  "executeConfigurationPhase a now st =
     (let detectedServices = detectRequiredServices a;
          unconfiguredServices = filter (\<lambda>service. \<not> has_secret a service) detectedServices
      in if length unconfiguredServices = 0 then (PHASE_GENERATING, st, [])
         else
           let newCardId = js ''config-'' @ Number_toString now in
           (IDLE,
            st\<lparr>pending := Some \<lparr>requiredServices = unconfiguredServices,
                                 configuredServices = [],
                                 configCardId = newCardId\<rparr>\<rparr>,
            [\<lparr>cardId = newCardId,
              title = js ''Connect External Services'',
              card_message = js ''To build with real data, please connect the following services:'',
              services = map (\<lambda>s. \<lparr>service_id = s,
                                     service_name = getServiceDisplayName a s,
                                     service_type = getServiceAuthType a s,
                                     service_status = js ''pending''\<rparr>) unconfiguredServices,
              actions = [js ''skip'', js ''continue'']\<rparr>]))"

section \<open>Sample inputs\<close>

text \<open>
  A worker environment, a tenant and an issuance time. The token that
  \<open>generatePreviewToken\<close> issues for them is
  \<^verbatim>\<open>YWdlbnQtNDI=.1700000000000.oifdYwe/Ia1UYINIJomaMv3WypJbiIbX+1/LQ0whT0M=\<close>.
\<close>

definition sample_env :: env where
  "sample_env = \<lparr>JWT_SECRET = Some (js ''s3cret''), PLAID_CLIENT_ID = Some (js ''client-id''),
                  PLAID_SECRET = Some (js ''plaid-secret''), PLAID_ENV = None\<rparr>"

definition sample_agent :: jsstring where
  "sample_agent = js ''agent-42''"

definition sample_time :: int where
  "sample_time = 1700000000000"

definition sample_token :: jsstring where
  "sample_token =
     b64encode (map ucast sample_agent) @ 46 # Number_toString sample_time @ 46 #
     b64encode (hmac_sha256 (encode (js ''s3cret''))
                  (encode (sample_agent @ 46 # Number_toString sample_time)))"

text \<open>A request to an endpoint, with or without the \<open>X-Preview-Token\<close> header.\<close>

definition request_to :: "endpoint \<Rightarrow> jsstring option \<Rightarrow> request" where
  "request_to ep previewToken =
     \<lparr>req_method = endpoint_method ep, req_path = endpoint_path ep,
      header_X_Preview_Token = previewToken, header_Origin = None,
      req_json = Inr (JObj [(js ''public_token'', JStr (js ''public-sandbox-1''))])\<rparr>"

text \<open>
  A world where the provider answers every call with 200 and a fresh credential, and the
  tenant's agent has no access token stored.
\<close>

definition sample_world :: world where
  "sample_world =
     \<lparr>fetch = (\<lambda>url payload. Responded 200
                 (Inr (JObj [(js ''access_token'', JStr (js ''access-sandbox-1'')),
                             (js ''item_id'', JStr (js ''item-1''))]))),
      getAgentStub = (\<lambda>agentId. None),
      getPlaidAccessToken = (\<lambda>agentId. Inr JNull),
      storePlaidAccessToken = (\<lambda>agentId access_token item_id. None),
      getPreviewDomain = Some (js ''preview.example.com'')\<rparr>"

text \<open>
  A world where the agent has an access token stored and the provider answers every call
  with 400 and an error of its own.
\<close>

definition expired_world :: world where
  "expired_world =
     \<lparr>fetch = (\<lambda>url payload. Responded 400
                 (Inr (JObj [(js ''error_code'', JStr (js ''ITEM_LOGIN_REQUIRED'')),
                             (js ''error_message'', JStr (js ''login required''))]))),
      getAgentStub = (\<lambda>agentId. None),
      getPlaidAccessToken = (\<lambda>agentId. Inr (JStr (js ''access-sandbox-1''))),
      storePlaidAccessToken = (\<lambda>agentId access_token item_id. None),
      getPreviewDomain = Some (js ''preview.example.com'')\<rparr>"

text \<open>An environment without the platform's provider credentials.\<close>

definition unconfigured_env :: env where
  "unconfigured_env = \<lparr>JWT_SECRET = Some (js ''s3cret''), PLAID_CLIENT_ID = None,
                        PLAID_SECRET = None, PLAID_ENV = None\<rparr>"

text \<open>
  An agent whose blueprint needs one service that has no secret, and the state the first
  run of the configuration phase at \<open>sample_time\<close> leaves.
\<close>

definition plaid_agent :: agent where
  "plaid_agent =
     \<lparr>detectRequiredServices = [js ''plaid''], has_secret = (\<lambda>service. False),
      getServiceDisplayName = (\<lambda>service. js ''Plaid''),
      getServiceAuthType = (\<lambda>service. oauth)\<rparr>"

definition awaiting_state :: PhasicState where
  "awaiting_state =
     \<lparr>pending = Some \<lparr>requiredServices = [js ''plaid''], configuredServices = [],
                        configCardId = js ''config-1700000000000''\<rparr>\<rparr>"

section \<open>Properties of the platform functions\<close>

lemma unat_of_nat16: "n < 65536 \<Longrightarrow> unat (of_nat n :: code_unit) = n"
  by (simp add: unat_of_nat)

lemma unat_of_char: "unat (of_char c :: code_unit) = of_char c"
proof -
  have "(of_char c :: nat) < 65536" using nat_of_char_less_256 [of c] by linarith
  then have "unat (of_nat (of_char c) :: code_unit) = of_char c" by (rule unat_of_nat16)
  then show ?thesis by (simp only: of_nat_of_char)
qed

lemma inj_js: "inj js"
proof -
  have "inj (of_char :: char \<Rightarrow> code_unit)"
  proof (rule injI)
    fix c d :: char
    assume "(of_char c :: code_unit) = of_char d"
    then have "unat (of_char c :: code_unit) = unat (of_char d :: code_unit)" by simp
    then show "c = d" by (simp only: unat_of_char of_char_eq_iff)
  qed
  then have "inj (map (of_char :: char \<Rightarrow> code_unit))" by (simp only: inj_map)
  moreover have "js = map of_char" by (rule ext) (simp add: js_def)
  ultimately show ?thesis by simp
qed

lemma js_eq_iff [simp]: "js s = js t \<longleftrightarrow> s = t"
  using inj_js by (simp only: inj_eq)

lemma js_Nil_iff [simp]: "js s = [] \<longleftrightarrow> s = []"
  by (simp add: js_def)

lemma js_append: "js s @ js t = js (s @ t)"
  by (simp add: js_def)

lemma digit_char: "d < 10 \<Longrightarrow> isDigit (of_nat (48 + d)) \<and> unat (of_nat (48 + d) :: code_unit) - 48 = d"
  unfolding isDigit_def word_le_nat_alt
  by (simp add: unat_of_nat16 del: of_nat_add)

lemma digits_isDigit: "c \<in> set (digits n) \<Longrightarrow> isDigit c"
proof (induction n arbitrary: c rule: digits.induct)
  case (1 n)
  show ?case
  proof (cases "n < 10")
    case True
    with "1.prems" show ?thesis using digit_char [of n] by (simp add: digits.simps [of n] del: of_nat_add)
  next
    case False
    with "1.prems" have "c \<in> set (digits (n div 10)) \<or> c = of_nat (48 + n mod 10)"
      by (auto simp add: digits.simps [of n] simp del: of_nat_add)
    then show ?thesis using "1.IH" [OF False] digit_char [of "n mod 10"] by auto
  qed
qed

lemma digits_nonempty: "digits n \<noteq> []"
  by (simp add: digits.simps [of n])

lemma digits_value_snoc: "digits_value (z @ [c]) = 10 * digits_value z + (unat c - 48)"
  by (simp add: digits_value_def)

lemma digits_value_digits: "digits_value (digits n) = n"
proof (induction n rule: digits.induct)
  case (1 n)
  show ?case
  proof (cases "n < 10")
    case True
    then show ?thesis using digit_char [of n] by (simp add: digits.simps [of n] digits_value_def del: of_nat_add)
  next
    case False
    then show ?thesis using "1.IH" digit_char [of "n mod 10"]
      by (simp add: digits.simps [of n] digits_value_snoc del: of_nat_add)
  qed
qed

lemma isDigit_not_ws: "isDigit c \<Longrightarrow> \<not> isStrWhiteSpaceChar c"
  unfolding isDigit_def isStrWhiteSpaceChar_def word_le_nat_alt
  by auto

lemma isDigit_not_sign: "isDigit c \<Longrightarrow> c \<noteq> 43 \<and> c \<noteq> 45 \<and> c \<noteq> 46"
  unfolding isDigit_def word_le_nat_alt
  by auto

lemma takeWhile_all: "\<forall>c \<in> set z. P c \<Longrightarrow> takeWhile P z = z"
  by (induction z) auto

lemma parseInt_digits: "parseInt (digits n) = Some (int n)"
proof -
  obtain c r where d: "digits n = c # r" using digits_nonempty [of n] by (cases "digits n") auto
  have all: "\<forall>x \<in> set (digits n). isDigit x" using digits_isDigit by blast
  have c: "isDigit c" using all d by simp
  have dw: "dropWhile isStrWhiteSpaceChar (digits n) = digits n"
    using d isDigit_not_ws [OF c] by simp
  have tw: "takeWhile isDigit (digits n) = digits n" using all by (rule takeWhile_all)
  have "hd (digits n) \<noteq> 43 \<and> hd (digits n) \<noteq> 45" using d isDigit_not_sign [OF c] by simp
  then show ?thesis
    using digits_nonempty [of n]
    by (simp add: parseInt_def Let_def dw tw digits_value_digits)
qed

lemma parseInt_neg_digits: "parseInt (45 # digits n) = Some (- int n)"
proof -
  have all: "\<forall>x \<in> set (digits n). isDigit x" using digits_isDigit by blast
  have ws: "\<not> isStrWhiteSpaceChar 45" by (simp add: isStrWhiteSpaceChar_def)
  have tw: "takeWhile isDigit (digits n) = digits n" using all by (rule takeWhile_all)
  show ?thesis
    using ws digits_nonempty [of n]
    by (simp add: parseInt_def Let_def tw digits_value_digits)
qed

lemma parseInt_toString: "parseInt (Number_toString n) = Some n"
  by (simp add: Number_toString_def parseInt_digits parseInt_neg_digits)

lemma toString_no_dot: "46 \<notin> set (Number_toString n)"
  using digits_isDigit isDigit_not_sign by (auto simp: Number_toString_def)


lemma b64_of_nat:
  assumes "m < 65536"
  shows "is_b64 (of_nat m) \<longleftrightarrow> (65 \<le> m \<and> m \<le> 90) \<or> (97 \<le> m \<and> m \<le> 122) \<or> (48 \<le> m \<and> m \<le> 57) \<or> m = 43 \<or> m = 47"
    and "b64val (of_nat m) = (if 65 \<le> m \<and> m \<le> 90 then m - 65 else if 97 \<le> m \<and> m \<le> 122 then m - 71
          else if 48 \<le> m \<and> m \<le> 57 then m + 4 else if m = 43 then 62 else 63)"
proof -
  have u: "unat (of_nat m :: code_unit) = m" using assms by (rule unat_of_nat16)
  have e: "\<And>k. k < 65536 \<Longrightarrow> (of_nat m :: code_unit) = of_nat k \<longleftrightarrow> m = k"
    using assms by (metis unat_of_nat16)
  have e43: "(of_nat m :: code_unit) = 43 \<longleftrightarrow> m = 43" using e [of 43] by simp
  have e47: "(of_nat m :: code_unit) = 47 \<longleftrightarrow> m = 47" using e [of 47] by simp
  show "is_b64 (of_nat m) \<longleftrightarrow> (65 \<le> m \<and> m \<le> 90) \<or> (97 \<le> m \<and> m \<le> 122) \<or> (48 \<le> m \<and> m \<le> 57) \<or> m = 43 \<or> m = 47"
    unfolding is_b64_def word_le_nat_alt e43 e47 u by simp
  show "b64val (of_nat m) = (if 65 \<le> m \<and> m \<le> 90 then m - 65 else if 97 \<le> m \<and> m \<le> 122 then m - 71
          else if 48 \<le> m \<and> m \<le> 57 then m + 4 else if m = 43 then 62 else 63)"
    unfolding b64val_def word_le_nat_alt e43 e47 u by simp
qed

lemma b64char_of_nat:
  "b64char n = of_nat (if n < 26 then 65 + n else if n < 52 then 71 + n else if n < 62 then n - 4
                       else if n = 62 then 43 else 47)"
  unfolding b64char_def by (simp del: of_nat_add of_nat_diff)

lemma b64char_props:
  assumes "n < 64"
  shows "is_b64 (b64char n)" and "b64val (b64char n) = n"
proof -
  define m where "m = (if n < 26 then 65 + n else if n < 52 then 71 + n else if n < 62 then n - 4
                       else if n = 62 then 43 else 47)"
  have c: "b64char n = of_nat m" unfolding m_def by (rule b64char_of_nat)
  have m: "m < 65536" using assms by (auto simp: m_def)
  show "is_b64 (b64char n)"
    unfolding c b64_of_nat(1) [OF m] using assms by (auto simp: m_def)
  show "b64val (b64char n) = n"
    unfolding c b64_of_nat(2) [OF m] using assms by (auto simp: m_def)
qed

lemma is_b64_not_special:
  "is_b64 c \<Longrightarrow> c \<noteq> 61 \<and> c \<noteq> 46 \<and> \<not> is_ascii_whitespace c"
  unfolding is_b64_def is_ascii_whitespace_def word_le_nat_alt
  by auto

lemma sextets_bound: "\<forall>b \<in> set bs. b < 256 \<Longrightarrow> \<forall>x \<in> set (sextets bs). x < 64"
  by (induction bs rule: sextets.induct) auto

lemma b64decode_sextets: "\<forall>b \<in> set bs. b < 256 \<Longrightarrow> b64decode (sextets bs) = bs"
  by (induction bs rule: sextets.induct) auto

lemma length_sextets_mod: "length (sextets bs) mod 4 \<noteq> 1"
  by (induction bs rule: sextets.induct) auto

lemma length_b64encode: "length (b64encode bs) mod 4 = 0"
proof -
  have "(length (sextets xs) + (3 - length xs mod 3) mod 3) mod 4 = 0" for xs :: "nat list"
    by (induction xs rule: sextets.induct) auto
  from this [of "map unat bs"] show ?thesis by (simp add: b64encode_def)
qed


lemma unat_byte_bound: "\<forall>b \<in> set (map unat (bs :: byte list)). b < 256"
proof -
  have "unat b < 256" for b :: byte using unsigned_less [of b, where 'a = nat] by simp
  then show ?thesis by simp
qed

lemma core_is_b64: "\<forall>c \<in> set (map b64char (sextets (map unat (bs :: byte list)))). is_b64 c"
  using sextets_bound [OF unat_byte_bound, of bs] b64char_props(1) by auto

lemma b64val_core: "\<forall>x \<in> set xs. x < 64 \<Longrightarrow> map b64val (map b64char xs) = xs"
  by (induction xs) (auto simp: b64char_props(2))

lemma strip_padding_id:
  assumes "\<forall>c \<in> set d. c \<noteq> 61"
  shows "strip_padding d = d"
proof (cases "rev d")
  case Nil
  then show ?thesis by (simp add: strip_padding_def)
next
  case (Cons c1 r)
  then have "c1 \<in> set d" by (metis list.set_intros(1) set_rev)
  then have "c1 \<noteq> 61" using assms by blast
  then show ?thesis using Cons by (simp add: strip_padding_def split: list.splits)
qed

lemma strip_padding_core:
  assumes "\<forall>c \<in> set core. c \<noteq> 61" and "k \<le> 2"
  shows "strip_padding (core @ replicate k 61) = core"
proof -
  consider "k = 0" | "k = 1" | "k = 2" using assms(2) by linarith
  then show ?thesis
  proof cases
    case 1
    then show ?thesis using strip_padding_id [OF assms(1)] by simp
  next
    case 2
    show ?thesis
    proof (cases "rev core")
      case Nil
      then show ?thesis using 2 by (simp add: strip_padding_def)
    next
      case (Cons c2 r)
      then have "c2 \<in> set core" by (metis list.set_intros(1) set_rev)
      then have "c2 \<noteq> 61" using assms(1) by blast
      moreover have "core = rev (c2 # r)" using Cons by (metis rev_rev_ident)
      ultimately show ?thesis using 2 Cons by (simp add: strip_padding_def)
    qed
  next
    case 3
    then show ?thesis
      by (simp add: strip_padding_def numeral_2_eq_2)
  qed
qed

lemma atob_b64encode: "atob (b64encode bs) = Inr (fromCharCode bs)"
proof -
  define core where "core = map b64char (sextets (map unat bs))"
  define k where "k = (3 - length bs mod 3) mod 3"
  have e: "b64encode bs = core @ replicate k 61" by (simp add: b64encode_def core_def k_def)
  have k: "k \<le> 2" unfolding k_def by arith
  have core: "\<forall>c \<in> set core. is_b64 c" unfolding core_def by (rule core_is_b64)
  have core61: "\<forall>c \<in> set core. c \<noteq> 61" using core is_b64_not_special by blast
  have ws61: "\<not> is_ascii_whitespace 61" by (simp add: is_ascii_whitespace_def)
  have "\<forall>c \<in> set (core @ replicate k 61). \<not> is_ascii_whitespace c"
    using core is_b64_not_special ws61 by auto
  then have f: "filter (\<lambda>c. \<not> is_ascii_whitespace c) (core @ replicate k 61) = core @ replicate k 61"
    by (simp only: filter_True)
  have len: "length (core @ replicate k 61) mod 4 = 0" using length_b64encode [of bs] e by simp
  have sp: "strip_padding (core @ replicate k 61) = core" by (rule strip_padding_core [OF core61 k])
  have l1: "length core mod 4 \<noteq> 1" unfolding core_def using length_sextets_mod [of "map unat bs"] by simp
  have nb: "\<not> (\<exists>c \<in> set core. \<not> is_b64 c)" using core by blast
  have "map b64val core = sextets (map unat bs)"
    unfolding core_def by (rule b64val_core [OF sextets_bound [OF unat_byte_bound]])
  then have dec: "b64decode (map b64val core) = map unat bs"
    by (simp add: b64decode_sextets [OF unat_byte_bound])
  have "map of_nat (map unat bs) = (map ucast bs :: jsstring)" by simp
  then show ?thesis
    unfolding atob_def e Let_def f using len sp l1 nb dec by (simp add: fromCharCode_def)
qed

lemma b64encode_no_dot: "46 \<notin> set (b64encode bs)"
proof -
  have "\<forall>c \<in> set (map b64char (sextets (map unat bs))). c \<noteq> 46"
    using core_is_b64 [of bs] is_b64_not_special by blast
  then show ?thesis by (auto simp: b64encode_def)
qed

lemma unat_ucast_byte: "unat (ucast (b :: byte) :: code_unit) = unat b"
proof -
  have "unat b < 2 ^ 16" using unsigned_less [of b, where 'a = nat] by simp
  then show ?thesis by (simp add: unsigned_ucast_eq take_bit_nat_eq_self)
qed

lemma ucast_byte_le: "(ucast (b :: byte) :: code_unit) \<le> 255"
proof -
  have "unat b < 256" using unsigned_less [of b, where 'a = nat] by simp
  then show ?thesis by (simp add: word_le_nat_alt unat_ucast_byte)
qed

lemma ucast_ucast_byte: "(ucast (ucast (b :: byte) :: code_unit) :: byte) = b"
  by (simp add: ucast_up_ucast_id is_up)

lemma ucast_ucast_unit:
  assumes "c \<le> 255"
  shows "(ucast (ucast (c :: code_unit) :: byte) :: code_unit) = c"
proof -
  have "unat c < 2 ^ 8" using assms by (simp add: word_le_nat_alt)
  then have "take_bit 8 (unat c) = unat c" by (rule take_bit_nat_eq_self)
  then have "unat (ucast (ucast c :: byte) :: code_unit) = unat c"
    by (simp add: unsigned_ucast_eq unsigned_take_bit_eq)
  then show ?thesis by (rule word_unat_eq_iff [THEN iffD2])
qed

lemma btoa_fromCharCode: "btoa (fromCharCode bs) = Inr (b64encode bs)"
proof -
  have "\<not> (\<exists>c \<in> set (fromCharCode bs). 255 < c)"
    using ucast_byte_le by (auto simp: fromCharCode_def simp flip: not_le)
  moreover have "map ucast (fromCharCode bs) = bs"
    by (simp add: fromCharCode_def ucast_ucast_byte comp_def)
  ultimately show ?thesis by (simp add: btoa_def)
qed

lemma atob_btoa: "btoa s = Inr t \<Longrightarrow> atob t = Inr s"
proof -
  assume a: "btoa s = Inr t"
  then have le: "\<forall>c \<in> set s. c \<le> 255" and t: "t = b64encode (map ucast s)"
    by (auto simp: btoa_def split: if_splits simp flip: not_less)
  have "fromCharCode (map ucast s) = s"
    using le by (induction s) (auto simp: fromCharCode_def ucast_ucast_unit)
  then show ?thesis by (simp add: t atob_b64encode)
qed

lemma btoa_no_dot: "btoa s = Inr t \<Longrightarrow> 46 \<notin> set t"
  by (auto simp: btoa_def b64encode_no_dot split: if_splits)


lemma split_no_sep: "sep \<notin> set a \<Longrightarrow> split sep a = [a]"
  by (induction a) auto

lemma split_append: "sep \<notin> set a \<Longrightarrow> split sep (a @ sep # r) = a # split sep r"
  by (induction a) auto

lemma signatureBase64_eq:
  "signatureBase64 secret agentId timestamp =
     Inr (b64encode (hmac_sha256 (encode secret) (encode (agentId @ 46 # timestamp))))"
  by (simp add: signatureBase64_def btoa_fromCharCode)

lemma generate_shape:
  assumes "generatePreviewToken e now agentId = Inr tok"
  obtains enc sig where "btoa agentId = Inr enc" and "\<not> missing (JWT_SECRET e)"
    and "signatureBase64 (the (JWT_SECRET e)) agentId (Number_toString now) = Inr sig"
    and "tok = enc @ 46 # Number_toString now @ 46 # sig"
  using assms
  by (auto simp: generatePreviewToken_def Let_def split: sum.splits if_splits)

lemma split_three:
  assumes "46 \<notin> set a" and "46 \<notin> set b" and "46 \<notin> set c"
  shows "split 46 (a @ 46 # b @ 46 # c) = [a, b, c]"
  using assms by (simp add: split_append split_no_sep)

lemma validate_try_generated:
  assumes "generatePreviewToken e t0 agentId = Inr tok"
  shows "validate_try e now tok = (if now - t0 > maxAge then Inr None else Inr (Some agentId))"
proof -
  from assms obtain enc sig where enc: "btoa agentId = Inr enc"
    and sec: "\<not> missing (JWT_SECRET e)"
    and sig: "signatureBase64 (the (JWT_SECRET e)) agentId (Number_toString t0) = Inr sig"
    and tok: "tok = enc @ 46 # Number_toString t0 @ 46 # sig"
    by (rule generate_shape)
  have "46 \<notin> set sig" using sig by (auto simp: signatureBase64_eq b64encode_no_dot)
  then have parts: "split 46 tok = [enc, Number_toString t0, sig]"
    unfolding tok using btoa_no_dot [OF enc] toString_no_dot by (rule split_three [rotated 2])
  show ?thesis
    unfolding validate_try_def parts Let_def
    by (simp add: atob_btoa [OF enc] parseInt_toString sec sig)
qed

lemma generated_nonempty: "generatePreviewToken e t0 agentId = Inr tok \<Longrightarrow> tok \<noteq> []"
  by (erule generate_shape) simp

lemma validate_generated:
  assumes "generatePreviewToken e t0 agentId = Inr tok"
  shows "validatePreviewToken e now tok = (if now - t0 > maxAge then Inr None else Inr (Some agentId))"
  using generated_nonempty [OF assms] validate_try_generated [OF assms, of now]
  by (simp add: validatePreviewToken_def)

lemma generate_succeeds:
  assumes "\<not> missing (JWT_SECRET e)" and "\<forall>c \<in> set agentId. c \<le> 255"
  shows "\<exists>tok. generatePreviewToken e now agentId = Inr tok"
proof -
  have "btoa agentId = Inr (b64encode (map ucast agentId))"
    using assms(2) by (auto simp: btoa_def simp flip: not_le)
  then show ?thesis using assms(1)
    by (simp add: generatePreviewToken_def signatureBase64_eq Let_def)
qed

section \<open>Properties of the preview token\<close>

lemma sample_generated_with:
  assumes "JWT_SECRET e = Some (js ''s3cret'')"
  shows "generatePreviewToken e sample_time sample_agent = Inr sample_token"
proof -
  have "\<forall>c \<in> set sample_agent. c \<le> 255" by (simp add: sample_agent_def js_def)
  then have "btoa sample_agent = Inr (b64encode (map ucast sample_agent))"
    by (auto simp: btoa_def simp flip: not_le)
  then show ?thesis
    by (simp add: generatePreviewToken_def signatureBase64_eq Let_def assms missing_def
        sample_token_def)
qed

lemma sample_generated:
  "generatePreviewToken sample_env sample_time sample_agent = Inr sample_token"
  by (rule sample_generated_with) (simp add: sample_env_def)

text \<open>
  C1. Round trip: whenever \<open>generatePreviewToken\<close> issues a token for a tenant id, a
  secret and a time \<open>now\<close>, \<open>validatePreviewToken\<close> with the same secret at the same
  \<open>now\<close> returns that tenant id. (A token is issued exactly when the secret is not empty
  and every code unit of the tenant id is at most \<open>0xFF\<close>: \<open>generate_succeeds\<close>,
  \<open>generate_shape\<close>.)
\<close>

theorem token_round_trip:
  "generatePreviewToken e now tenantId = Inr token \<Longrightarrow>
   validatePreviewToken e now token = Inr (Some tenantId)"
  by (simp add: validate_generated maxAge_def)

theorem token_round_trip_witness:
  "generatePreviewToken sample_env sample_time sample_agent = Inr sample_token \<and>
   validatePreviewToken sample_env sample_time sample_token = Inr (Some sample_agent)"
  using sample_generated token_round_trip [OF sample_generated] by simp

text \<open>
  C2, as stated, fails: a token whose timestamp is later than the verifier's \<open>now\<close> is
  accepted. The token issued at \<open>sample_time\<close> verifies one hour earlier.
\<close>

theorem future_token_counterexample:
  "parseInt (split 46 sample_token ! 1) = Some sample_time \<and>
   sample_time - 3600000 < sample_time \<and>
   validatePreviewToken sample_env (sample_time - 3600000) sample_token = Inr (Some sample_agent)"
proof -
  have "46 \<notin> set (b64encode (map ucast sample_agent))" by (rule b64encode_no_dot)
  then have "split 46 sample_token ! 1 = Number_toString sample_time"
    unfolding sample_token_def
    by (simp add: split_three [OF _ toString_no_dot b64encode_no_dot])
  then show ?thesis
    by (simp add: parseInt_toString validate_generated [OF sample_generated] maxAge_def)
qed

text \<open>
  C2, amended. \<open>validatePreviewToken\<close> has no check for a timestamp in the future: its
  only test on the timestamp is \<open>now - tokenTime > maxAge\<close>. A token issued at a time
  \<open>t0\<close> later than the verifier's \<open>now\<close> verifies and returns its tenant id.
\<close>

theorem future_token_accepted:
  "generatePreviewToken e t0 tenantId = Inr token \<Longrightarrow> now < t0 \<Longrightarrow>
   validatePreviewToken e now token = Inr (Some tenantId)"
  by (simp add: validate_generated maxAge_def)

theorem future_token_accepted_witness:
  "generatePreviewToken sample_env sample_time sample_agent = Inr sample_token \<and>
   sample_time - 1 < sample_time \<and>
   validatePreviewToken sample_env (sample_time - 1) sample_token = Inr (Some sample_agent)"
  using sample_generated future_token_accepted [OF sample_generated, of "sample_time - 1"]
  by simp

text \<open>
  C3. The 24-hour boundary: a token issued at \<open>t0\<close> verifies at
  \<open>t0 + 24h - 1ms\<close> and is rejected at \<open>t0 + 24h + 1ms\<close>.
\<close>

theorem max_age_boundary:
  "generatePreviewToken e t0 tenantId = Inr token \<Longrightarrow>
   validatePreviewToken e (t0 + 24 * 60 * 60 * 1000 - 1) token = Inr (Some tenantId) \<and>
   validatePreviewToken e (t0 + 24 * 60 * 60 * 1000 + 1) token = Inr None"
  by (simp add: validate_generated maxAge_def)

theorem max_age_boundary_witness:
  "generatePreviewToken sample_env sample_time sample_agent = Inr sample_token \<and>
   validatePreviewToken sample_env (sample_time + 24 * 60 * 60 * 1000 - 1) sample_token
     = Inr (Some sample_agent) \<and>
   validatePreviewToken sample_env (sample_time + 24 * 60 * 60 * 1000 + 1) sample_token
     = Inr None"
  using sample_generated max_age_boundary [OF sample_generated] by simp

text \<open>
  C4. \<open>validatePreviewToken\<close> never throws: for every token the returned promise
  resolves, to a tenant id or to \<open>null\<close>. In particular it resolves to \<open>null\<close> when the
  number of parts is not three, when the timestamp part does not parse as an integer, and
  when \<open>atob\<close> throws on the tenant-id part.
\<close>

theorem validate_never_throws:
  "(\<exists>r. validatePreviewToken e now token = Inr r) \<and>
   (length (split 46 token) \<noteq> 3 \<longrightarrow> validatePreviewToken e now token = Inr None) \<and>
   (parseInt (split 46 token ! 1) = None \<longrightarrow> validatePreviewToken e now token = Inr None) \<and>
   (isl (atob (split 46 token ! 0)) \<longrightarrow> validatePreviewToken e now token = Inr None)"
  by (auto simp: validatePreviewToken_def validate_try_def Let_def isl_def
      split: sum.splits option.splits)

theorem validate_never_throws_witness:
  "length (split 46 (js ''YQ==.1700000000000'')) \<noteq> 3 \<and>
   validatePreviewToken sample_env sample_time (js ''YQ==.1700000000000'') = Inr None \<and>
   parseInt (split 46 (js ''YQ==.soon.c2ln'') ! 1) = None \<and>
   validatePreviewToken sample_env sample_time (js ''YQ==.soon.c2ln'') = Inr None \<and>
   isl (atob (split 46 (js ''#.1700000000000.c2ln'') ! 0)) \<and>
   validatePreviewToken sample_env sample_time (js ''#.1700000000000.c2ln'') = Inr None"
proof -
  have a: "length (split 46 (js ''YQ==.1700000000000'')) \<noteq> 3" by (simp add: js_def)
  have b: "parseInt (split 46 (js ''YQ==.soon.c2ln'') ! 1) = None"
    by (simp add: js_def parseInt_def isStrWhiteSpaceChar_def isDigit_def)
  have c: "isl (atob (split 46 (js ''#.1700000000000.c2ln'') ! 0))"
    by (simp add: js_def atob_def is_ascii_whitespace_def is_b64_def)
  show ?thesis
    using a b c
      validate_never_throws [of sample_env sample_time "js ''YQ==.1700000000000''"]
      validate_never_throws [of sample_env sample_time "js ''YQ==.soon.c2ln''"]
      validate_never_throws [of sample_env sample_time "js ''#.1700000000000.c2ln''"]
    by blast
qed

section \<open>Properties of the proxy\<close>

lemma status_json [simp]: "status (json props st) = st"
  by (simp add: json_def)

lemma map_of_js: "map_of (map (\<lambda>(k, v). (js k, v)) xs) (js k) = map_of xs k"
  by (induction xs) auto

lemma field_json:
  "field (json props st) k =
     (case map_of (rev (filter (\<lambda>(k, v). v \<noteq> JUndefined) props)) k of
        Some x \<Rightarrow> x | None \<Rightarrow> JUndefined)"
  by (simp add: field_def json_def map_of_js rev_map)

lemma field_allow_origin [simp]: "field (r\<lparr>allow_origin := a\<rparr>) k = field r k"
  by (simp add: field_def)

lemma status_allow_origin: "status (r\<lparr>allow_origin := a\<rparr>) = status r"
  by simp

lemma matching_endpoint:
  "req_method req = endpoint_method ep \<Longrightarrow> req_path req = endpoint_path ep \<Longrightarrow>
   matching req = Some ep"
  by (cases ep) (simp_all add: matching_def)

lemma under_proxy_endpoint: "under_proxy (endpoint_path ep)"
  by (cases ep) (simp_all add: under_proxy_def js_def)

lemma endpoint_not_preflight: "endpoint_method ep \<noteq> OPTIONS"
  by (cases ep) simp_all

lemma dispatch_endpoint:
  assumes "req_method req = endpoint_method ep" and "req_path req = endpoint_path ep"
  shows "setupPlaidProxyRoutes w e now req =
           ((fst (handler ep w e now req))\<lparr>allow_origin := allowed_origin w req\<rparr>,
            snd (handler ep w e now req))"
  using matching_endpoint [OF assms] under_proxy_endpoint [of ep] endpoint_not_preflight [of ep] assms
  by (simp add: setupPlaidProxyRoutes_def split: prod.splits)

lemma authenticate_missing:
  "missing (header_X_Preview_Token req) \<Longrightarrow>
   authenticate e now req = Inl (json [(''error'', JStr (js ''Missing preview token''))] 401)"
  by (simp add: authenticate_def Let_def)

lemma authenticate_invalid:
  "\<not> missing (header_X_Preview_Token req) \<Longrightarrow>
   validatePreviewToken e now (the (header_X_Preview_Token req)) = Inr None \<Longrightarrow>
   authenticate e now req = Inl (json [(''error'', JStr (js ''Invalid preview token''))] 403)"
  by (auto simp: authenticate_def missing_def Let_def)

lemma authenticate_valid:
  "header_X_Preview_Token req = Some token \<Longrightarrow>
   validatePreviewToken e now token = Inr (Some agentId) \<Longrightarrow> agentId \<noteq> [] \<Longrightarrow>
   authenticate e now req = Inr agentId"
  by (auto simp: authenticate_def missing_def validatePreviewToken_def Let_def)

lemma handler_rejects:
  "authenticate e now req = Inl r \<Longrightarrow> handler ep w e now req = (r, [])"
  by (cases ep)
     (simp_all add: link_token_route_def exchange_token_route_def transactions_route_def
        accounts_route_def status_route_def)


lemma plaidRequest_missing:
  "missing (PLAID_CLIENT_ID e) \<or> missing (PLAID_SECRET e) \<Longrightarrow>
   plaidRequest w e endpoint props = (Inl (Error (js ''Plaid credentials not configured'')), [])"
  by (simp add: plaidRequest_def Let_def)

lemma plaidRequest_events:
  "\<not> missing (PLAID_CLIENT_ID e) \<Longrightarrow> \<not> missing (PLAID_SECRET e) \<Longrightarrow>
   snd (plaidRequest w e endpoint props) =
     [Fetch (getPlaidBaseUrl e @ endpoint) (plaid_payload e props)]"
  by (simp add: plaidRequest_def Let_def)

lemma plaidRequest_Inr:
  assumes "plaidRequest w e endpoint props = (Inr response, evs)"
  shows "\<exists>st. evs = [Fetch (getPlaidBaseUrl e @ endpoint) (plaid_payload e props)] \<and>
           fetch w (getPlaidBaseUrl e @ endpoint) (plaid_payload e props) = Responded st (Inr response)
           \<and> ok st"
  using assms
  by (auto simp: plaidRequest_def Let_def
      split: if_splits fetch_result.splits sum.splits)

lemma plaidRequest_not_ok:
  assumes "Fetch url payload \<in> set (snd (plaidRequest w e endpoint props))"
    and "fetch w url payload = Responded st settled" and "\<not> ok st"
  shows "\<exists>x. fst (plaidRequest w e endpoint props) = Inl x"
  using assms
  by (auto simp: plaidRequest_def Let_def split: if_splits sum.splits)

lemma andThen_Inr:
  assumes "andThen m f = (Inr v, evs)"
  obtains u evs1 evs2 where "m = (Inr u, evs1)" and "f u = (Inr v, evs2)" and "evs = evs1 @ evs2"
  using assms by (auto simp: andThen_def split: prod.splits sum.splits)

lemma andThen_Inl: "fst m = Inl x \<Longrightarrow> andThen m f = (Inl x, snd m)"
  by (cases m) (auto simp: andThen_def)

lemma field_failure:
  "status (failure x fb) = 500" "field (failure x fb) ''success'' = JBool False"
  "field (failure x fb) ''needsConnection'' = JUndefined"
  by (simp_all add: failure_def field_json)

lemma catch_success:
  assumes "field (fst (catch m fb)) ''success'' = JBool True"
  obtains r where "m = (Inr r, snd (catch m fb))" and "fst (catch m fb) = r"
  using assms by (cases m; cases "fst m") (auto simp: catch_def field_failure)

lemma catch_Inl: "fst m = Inl x \<Longrightarrow> catch m fb = (failure x fb, snd m)"
  by (cases m) (auto simp: catch_def)

lemma lift_Inr: "lift r = (Inr v, evs) \<longleftrightarrow> r = Inr v \<and> evs = []"
  by (auto simp: lift_def)

lemma pure_Inr: "pure r = (Inr v, evs) \<longleftrightarrow> r = v \<and> evs = []"
  by (auto simp: pure_def)

lemma field_uncaught [simp]: "field (uncaught x) k = JUndefined"
  by (simp add: field_def uncaught_def)

lemma authenticate_Inl_fields:
  assumes "authenticate e now req = Inl r"
  shows "field r ''success'' = JUndefined" and "field r ''needsConnection'' = JUndefined"
  using assms
  by (auto simp: authenticate_def Let_def field_json split: if_splits sum.splits)

lemma call_getAgentStub_Inr:
  "call_getAgentStub w a = (Inr u, evs) \<longleftrightarrow> getAgentStub w a = None \<and> evs = [GetAgentStub a]"
  by (auto simp: call_getAgentStub_def split: option.splits)

lemma call_getPlaidAccessToken_Inr:
  "call_getPlaidAccessToken w a = (Inr v, evs) \<longleftrightarrow>
     getPlaidAccessToken w a = Inr v \<and> evs = [GetPlaidAccessToken a]"
  by (auto simp: call_getPlaidAccessToken_def)

lemma call_storePlaidAccessToken_Inr:
  "call_storePlaidAccessToken w a t i = (Inr u, evs) \<longleftrightarrow>
     storePlaidAccessToken w a t i = None \<and> evs = [StorePlaidAccessToken a t i]"
  by (auto simp: call_storePlaidAccessToken_def split: option.splits)

lemma exchange_success:
  assumes "field (fst (exchange_token_route w e now req)) ''success'' = JBool True"
  shows "\<exists>agentId access_token item_id url payload st response.
           snd (exchange_token_route w e now req) =
             [Fetch url payload, GetAgentStub agentId,
              StorePlaidAccessToken agentId access_token item_id] \<and>
           fetch w url payload = Responded st (Inr response) \<and> ok st \<and>
           get response ''access_token'' = Inr access_token \<and>
           storePlaidAccessToken w agentId access_token item_id = None"
proof (cases "authenticate e now req")
  case (Inl r)
  then show ?thesis using assms authenticate_Inl_fields(1) [OF Inl]
    by (simp add: exchange_token_route_def)
next
  case (Inr agentId)
  show ?thesis
  proof (cases "req_json req")
    case (Inl x)
    then show ?thesis using assms Inr by (simp add: exchange_token_route_def field_json)
  next
    case body: (Inr body)
    show ?thesis
    proof (cases "get body ''public_token''")
      case (Inl x)
      then show ?thesis using assms Inr body by (simp add: exchange_token_route_def)
    next
      case pt: (Inr public_token)
      show ?thesis
      proof (cases "truthy public_token")
        case False
        then show ?thesis using assms Inr body pt
          by (simp add: exchange_token_route_def field_json)
      next
        case True
        define m where "m =
          andThen (plaidRequest w e (js ''/item/public_token/exchange'')
                     [(''public_token'', public_token)])
            (\<lambda>response.
          andThen (call_getAgentStub w agentId) (\<lambda>_.
          andThen (lift (get response ''access_token'')) (\<lambda>access_token.
          andThen (lift (get response ''item_id'')) (\<lambda>item_id.
          andThen (call_storePlaidAccessToken w agentId access_token item_id) (\<lambda>_.
          pure (json [(''success'', JBool True), (''item_id'', item_id)] 200))))))"
        have route: "exchange_token_route w e now req = catch m ''Failed to exchange token''"
          using Inr body pt True by (simp add: exchange_token_route_def m_def)
        from assms obtain r where m: "m = (Inr r, snd (catch m ''Failed to exchange token''))"
          unfolding route by (rule catch_success)
        define evs where "evs = snd (catch m ''Failed to exchange token'')"
        from m have "m = (Inr r, evs)" by (simp add: evs_def)
        then obtain response access_token item_id st where
          "evs = [Fetch (getPlaidBaseUrl e @ js ''/item/public_token/exchange'')
                    (plaid_payload e [(''public_token'', public_token)]),
                  GetAgentStub agentId, StorePlaidAccessToken agentId access_token item_id]"
          "fetch w (getPlaidBaseUrl e @ js ''/item/public_token/exchange'')
             (plaid_payload e [(''public_token'', public_token)]) = Responded st (Inr response)"
          "ok st" "get response ''access_token'' = Inr access_token"
          "storePlaidAccessToken w agentId access_token item_id = None"
          unfolding m_def
          by (auto elim!: andThen_Inr dest!: plaidRequest_Inr
              simp: call_getAgentStub_Inr lift_Inr call_storePlaidAccessToken_Inr pure_Inr)
        then show ?thesis unfolding route evs_def [symmetric] by blast
      qed
    qed
  qed
qed

lemma data_route_no_credential:
  assumes "authenticate e now req = Inr agentId" and "getAgentStub w agentId = None"
    and "getPlaidAccessToken w agentId = Inr accessToken" and "\<not> truthy accessToken"
  shows "transactions_route w e now req =
           (json [(''success'', JBool False), (''error'', JStr (js ''No Plaid account connected'')),
                  (''needsConnection'', JBool True)] 400,
            [GetAgentStub agentId, GetPlaidAccessToken agentId])"
    and "accounts_route w e now req =
           (json [(''success'', JBool False), (''error'', JStr (js ''No Plaid account connected'')),
                  (''needsConnection'', JBool True)] 400,
            [GetAgentStub agentId, GetPlaidAccessToken agentId])"
  using assms
  by (simp_all add: transactions_route_def accounts_route_def catch_def andThen_def pure_def
      call_getAgentStub_def call_getPlaidAccessToken_def)

lemma andThen_events:
  "snd (andThen m f) = snd m @ (case fst m of Inl x \<Rightarrow> [] | Inr v \<Rightarrow> snd (f v))"
  by (cases m; cases "fst m") (auto simp: andThen_def split: prod.splits)

lemma andThen_fst:
  "fst (andThen m f) = (case fst m of Inl x \<Rightarrow> Inl x | Inr v \<Rightarrow> fst (f v))"
  by (cases m; cases "fst m") (auto simp: andThen_def split: prod.splits)

lemma catch_fst: "fst (catch m fb) = (case fst m of Inl x \<Rightarrow> failure x fb | Inr r \<Rightarrow> r)"
  by (cases m; cases "fst m") (auto simp: catch_def)

lemma catch_snd [simp]: "snd (catch m fb) = snd m"
  by (cases m; cases "fst m") (auto simp: catch_def)

lemma handler_provider_error:
  assumes "Fetch url payload \<in> set (snd (handler ep w e now req))"
    and "fetch w url payload = Responded st settled" and "\<not> ok st"
  shows "\<exists>x fb. fst (handler ep w e now req) = failure x fb"
proof (cases "authenticate e now req")
  case (Inl r)
  then show ?thesis using assms(1) by (simp add: handler_rejects)
next
  case (Inr agentId)
  note nok = plaidRequest_not_ok [OF _ assms(2,3)]
  show ?thesis
  proof (cases ep)
    case LinkToken
    then show ?thesis using assms(1) Inr
      by (auto simp: link_token_route_def andThen_events andThen_fst catch_fst lift_def pure_def
          split: sum.splits dest!: nok)
  next
    case ExchangeToken
    then show ?thesis using assms(1) Inr
      by (auto simp: exchange_token_route_def andThen_events andThen_fst catch_fst lift_def pure_def
          call_getAgentStub_def call_storePlaidAccessToken_def
          split: sum.splits option.splits if_splits dest!: nok)
  next
    case Transactions
    then show ?thesis using assms(1) Inr
      by (auto simp: transactions_route_def andThen_events andThen_fst catch_fst lift_def pure_def
          call_getAgentStub_def call_getPlaidAccessToken_def
          split: sum.splits option.splits if_splits dest!: nok)
  next
    case Accounts
    then show ?thesis using assms(1) Inr
      by (auto simp: accounts_route_def andThen_events andThen_fst catch_fst lift_def pure_def
          call_getAgentStub_def call_getPlaidAccessToken_def
          split: sum.splits option.splits if_splits dest!: nok)
  next
    case Status
    then show ?thesis using assms(1) Inr
      by (auto simp: status_route_def andThen_events andThen_fst catch_fst lift_def pure_def
          call_getAgentStub_def call_getPlaidAccessToken_def
          split: sum.splits option.splits if_splits)
  qed
qed

lemma sample_authenticated:
  "authenticate sample_env sample_time (request_to ep (Some sample_token)) = Inr sample_agent"
proof -
  have "validatePreviewToken sample_env sample_time sample_token = Inr (Some sample_agent)"
    by (simp add: validate_generated [OF sample_generated] maxAge_def)
  moreover have "sample_agent \<noteq> []" by (simp add: sample_agent_def)
  ultimately show ?thesis by (rule authenticate_valid [rotated]) (simp add: request_to_def)
qed

lemma request_to_endpoint:
  "req_method (request_to ep t) = endpoint_method ep" "req_path (request_to ep t) = endpoint_path ep"
  by (simp_all add: request_to_def)

lemma getPlaidBaseUrl_sample: "getPlaidBaseUrl sample_env = js ''https://sandbox.plaid.com''"
  by (simp add: getPlaidBaseUrl_def sample_env_def missing_def PLAID_SANDBOX_URL_def)

lemma sample_env_configured:
  "\<not> missing (PLAID_CLIENT_ID sample_env)" "\<not> missing (PLAID_SECRET sample_env)"
  by (simp_all add: sample_env_def missing_def)

lemma expired_run:
  "transactions_route expired_world sample_env sample_time (request_to Transactions (Some sample_token))
     = (json [(''success'', JBool False), (''error'', JStr (js ''login required''))] 500,
        [GetAgentStub sample_agent, GetPlaidAccessToken sample_agent,
         Fetch (js ''https://sandbox.plaid.com/transactions/sync'')
           (plaid_payload sample_env [(''access_token'', JStr (js ''access-sandbox-1''))])])"
  by (simp add: transactions_route_def sample_authenticated)
     (simp add: catch_def andThen_def lift_def pure_def plaidRequest_def Let_def
        getPlaidBaseUrl_sample js_append get_def failure_def message_or_def
        sample_env_configured expired_world_def ok_def
        call_getAgentStub_def call_getPlaidAccessToken_def)

lemma link_token_fields:
  "field (fst (link_token_route w e now req)) ''needsConnection'' = JUndefined"
proof (cases "authenticate e now req")
  case (Inl r)
  then show ?thesis using authenticate_Inl_fields(2) [OF Inl] by (simp add: link_token_route_def)
next
  case (Inr agentId)
  then show ?thesis
    by (auto simp: link_token_route_def catch_fst andThen_fst lift_def pure_def field_failure
        field_json split: sum.splits)
qed

lemma link_token_valid:
  assumes "authenticate e now req = Inr agentId"
  shows "missing (PLAID_CLIENT_ID e) \<or> missing (PLAID_SECRET e) \<Longrightarrow>
           link_token_route w e now req
             = (failure (Error (js ''Plaid credentials not configured''))
                  ''Failed to create link token'', [])"
    and "\<not> missing (PLAID_CLIENT_ID e) \<Longrightarrow> \<not> missing (PLAID_SECRET e) \<Longrightarrow>
           \<exists>props. snd (link_token_route w e now req)
             = [Fetch (getPlaidBaseUrl e @ js ''/link/token/create'') (plaid_payload e props)]
             \<and> ''client_id'' \<notin> fst ` set props \<and> ''secret'' \<notin> fst ` set props"
proof -
  show "missing (PLAID_CLIENT_ID e) \<or> missing (PLAID_SECRET e) \<Longrightarrow>
           link_token_route w e now req
             = (failure (Error (js ''Plaid credentials not configured''))
                  ''Failed to create link token'', [])"
    using assms by (simp add: link_token_route_def plaidRequest_missing andThen_def catch_def)
  show "\<not> missing (PLAID_CLIENT_ID e) \<Longrightarrow> \<not> missing (PLAID_SECRET e) \<Longrightarrow>
           \<exists>props. snd (link_token_route w e now req)
             = [Fetch (getPlaidBaseUrl e @ js ''/link/token/create'') (plaid_payload e props)]
             \<and> ''client_id'' \<notin> fst ` set props \<and> ''secret'' \<notin> fst ` set props"
    using assms
    by (auto simp: link_token_route_def andThen_events plaidRequest_events lift_def pure_def
        split: sum.splits intro!: exI [of _ "[(''user'', _), (''client_name'', _), (''products'', _), (''country_codes'', _), (''language'', _)]"])
qed

lemma payload_credentials:
  assumes "''client_id'' \<notin> fst ` set props" and "''secret'' \<notin> fst ` set props"
  shows "get (plaid_payload e props) ''client_id'' = Inr (JStr (the (PLAID_CLIENT_ID e)))"
    and "get (plaid_payload e props) ''secret'' = Inr (JStr (the (PLAID_SECRET e)))"
proof -
  have "map_of (rev props) ''client_id'' = None" "map_of (rev props) ''secret'' = None"
    using assms by (simp_all add: map_of_eq_None_iff)
  then show "get (plaid_payload e props) ''client_id'' = Inr (JStr (the (PLAID_CLIENT_ID e)))"
    and "get (plaid_payload e props) ''secret'' = Inr (JStr (the (PLAID_SECRET e)))"
    by (simp_all add: get_def plaid_payload_def map_of_js rev_map map_add_def
        flip: map_append)
qed
text \<open>
  C5, as stated, fails: a request whose \<open>X-Preview-Token\<close> header is present and empty
  carries a token that does not verify, and the answer is 401, not 403.
\<close>

theorem empty_token_counterexample:
  "header_X_Preview_Token (request_to Status (Some [])) = Some [] \<and>
   validatePreviewToken sample_env sample_time [] = Inr None \<and>
   status (fst (setupPlaidProxyRoutes sample_world sample_env sample_time
                  (request_to Status (Some [])))) = 401"
proof -
  have "missing (header_X_Preview_Token (request_to Status (Some [])))"
    by (simp add: request_to_def missing_def)
  then have "handler Status sample_world sample_env sample_time (request_to Status (Some []))
               = (json [(''error'', JStr (js ''Missing preview token''))] 401, [])"
    by (rule handler_rejects [OF authenticate_missing])
  then have "status (fst (setupPlaidProxyRoutes sample_world sample_env sample_time
                            (request_to Status (Some [])))) = 401"
    by (simp add: dispatch_endpoint [OF request_to_endpoint] del: handler.simps)
  then show ?thesis by (simp add: validatePreviewToken_def request_to_def)
qed

text \<open>
  C5, amended. For every request that reaches one of the five proxy handlers: when the
  \<open>X-Preview-Token\<close> header is absent or empty, the status is 401; when it is present and
  not empty and the token does not verify, the status is 403.
\<close>

theorem auth_status_codes:
  assumes "req_method req = endpoint_method ep" and "req_path req = endpoint_path ep"
  shows "(missing (header_X_Preview_Token req) \<longrightarrow>
            status (fst (setupPlaidProxyRoutes w e now req)) = 401) \<and>
         (\<not> missing (header_X_Preview_Token req) \<and>
          validatePreviewToken e now (the (header_X_Preview_Token req)) = Inr None \<longrightarrow>
            status (fst (setupPlaidProxyRoutes w e now req)) = 403)"
  by (auto simp: dispatch_endpoint [OF assms] handler_rejects [OF authenticate_missing]
      handler_rejects [OF authenticate_invalid])

theorem auth_status_codes_witness:
  "missing (header_X_Preview_Token (request_to LinkToken None)) \<and>
   status (fst (setupPlaidProxyRoutes sample_world sample_env sample_time
                  (request_to LinkToken None))) = 401 \<and>
   \<not> missing (header_X_Preview_Token (request_to Transactions (Some (js ''not-a-token'')))) \<and>
   validatePreviewToken sample_env sample_time (js ''not-a-token'') = Inr None \<and>
   status (fst (setupPlaidProxyRoutes sample_world sample_env sample_time
                  (request_to Transactions (Some (js ''not-a-token''))))) = 403"
proof -
  have a: "missing (header_X_Preview_Token (request_to LinkToken None))"
    by (simp add: request_to_def missing_def)
  have b: "\<not> missing (header_X_Preview_Token (request_to Transactions (Some (js ''not-a-token''))))"
    by (simp add: request_to_def missing_def)
  have c: "validatePreviewToken sample_env sample_time (js ''not-a-token'') = Inr None"
    by (simp add: validatePreviewToken_def validate_try_def) (simp add: js_def)
  then have d: "validatePreviewToken sample_env sample_time
                  (the (header_X_Preview_Token (request_to Transactions (Some (js ''not-a-token'')))))
                = Inr None"
    by (simp add: request_to_def)
  show ?thesis
    using a b c d
      auth_status_codes [OF request_to_endpoint, of LinkToken None sample_world sample_env sample_time]
      auth_status_codes [OF request_to_endpoint, of Transactions "Some (js ''not-a-token'')"
        sample_world sample_env sample_time]
    by blast
qed

text \<open>
  C6. A transactions or accounts request with a valid token of a tenant whose agent
  holds no access token (the stub is obtained and \<open>getPlaidAccessToken\<close> resolves to a
  falsy value) is answered with status 400, \<open>success: false\<close> and
  \<open>needsConnection: true\<close>; the handler has called the agent twice and the provider
  not at all.
\<close>

theorem no_credential_needs_connection:
  assumes "ep = Transactions \<or> ep = Accounts"
    and "req_method req = endpoint_method ep" and "req_path req = endpoint_path ep"
    and "header_X_Preview_Token req = Some token"
    and "validatePreviewToken e now token = Inr (Some agentId)" and "agentId \<noteq> []"
    and "getAgentStub w agentId = None"
    and "getPlaidAccessToken w agentId = Inr accessToken" and "\<not> truthy accessToken"
  shows "status (fst (setupPlaidProxyRoutes w e now req)) = 400 \<and>
         field (fst (setupPlaidProxyRoutes w e now req)) ''success'' = JBool False \<and>
         field (fst (setupPlaidProxyRoutes w e now req)) ''needsConnection'' = JBool True \<and>
         snd (setupPlaidProxyRoutes w e now req)
           = [GetAgentStub agentId, GetPlaidAccessToken agentId] \<and>
         (\<forall>url payload. Fetch url payload \<notin> set (snd (setupPlaidProxyRoutes w e now req)))"
proof -
  have auth: "authenticate e now req = Inr agentId"
    using assms(4-6) by (rule authenticate_valid)
  note routes = data_route_no_credential [OF auth assms(7-9)]
  from assms(1) show ?thesis
  proof
    assume "ep = Transactions"
    then show ?thesis
      using assms(2,3) by (simp add: dispatch_endpoint [of req Transactions] routes field_json)
  next
    assume "ep = Accounts"
    then show ?thesis
      using assms(2,3) by (simp add: dispatch_endpoint [of req Accounts] routes field_json)
  qed
qed

theorem no_credential_needs_connection_witness:
  "validatePreviewToken sample_env sample_time sample_token = Inr (Some sample_agent) \<and>
   getPlaidAccessToken sample_world sample_agent = Inr JNull \<and>
   status (fst (setupPlaidProxyRoutes sample_world sample_env sample_time
                  (request_to Accounts (Some sample_token)))) = 400 \<and>
   field (fst (setupPlaidProxyRoutes sample_world sample_env sample_time
                  (request_to Accounts (Some sample_token)))) ''needsConnection'' = JBool True \<and>
   snd (setupPlaidProxyRoutes sample_world sample_env sample_time
          (request_to Accounts (Some sample_token)))
     = [GetAgentStub sample_agent, GetPlaidAccessToken sample_agent]"
proof -
  have v: "validatePreviewToken sample_env sample_time sample_token = Inr (Some sample_agent)"
    by (simp add: validate_generated [OF sample_generated] maxAge_def)
  have h: "header_X_Preview_Token (request_to Accounts (Some sample_token)) = Some sample_token"
    by (simp add: request_to_def)
  have n: "sample_agent \<noteq> []" by (simp add: sample_agent_def)
  have s: "getAgentStub sample_world sample_agent = None" by (simp add: sample_world_def)
  have g: "getPlaidAccessToken sample_world sample_agent = Inr JNull"
    by (simp add: sample_world_def)
  have t: "\<not> truthy JNull" by simp
  show ?thesis
    using v g no_credential_needs_connection [OF _ request_to_endpoint h v n s g t] by simp
qed

text \<open>
  C7. When the exchange-token endpoint answers \<open>success: true\<close>, the handler has, in
  this order, obtained a response from the provider, obtained the agent's stub, and called
  \<open>storePlaidAccessToken\<close> with the \<open>access_token\<close> of that response; that call has
  resolved.
\<close>

theorem exchange_success_after_store:
  assumes "req_method req = POST" and "req_path req = endpoint_path ExchangeToken"
    and "field (fst (setupPlaidProxyRoutes w e now req)) ''success'' = JBool True"
  shows "\<exists>agentId access_token item_id url payload st response.
           snd (setupPlaidProxyRoutes w e now req) =
             [Fetch url payload, GetAgentStub agentId,
              StorePlaidAccessToken agentId access_token item_id] \<and>
           fetch w url payload = Responded st (Inr response) \<and> ok st \<and>
           get response ''access_token'' = Inr access_token \<and>
           storePlaidAccessToken w agentId access_token item_id = None"
proof -
  have d: "setupPlaidProxyRoutes w e now req =
             ((fst (exchange_token_route w e now req))\<lparr>allow_origin := allowed_origin w req\<rparr>,
              snd (exchange_token_route w e now req))"
    using dispatch_endpoint [of req ExchangeToken] assms(1,2) by simp
  from assms(3) have "field (fst (exchange_token_route w e now req)) ''success'' = JBool True"
    by (simp add: d)
  then show ?thesis unfolding d snd_conv by (rule exchange_success)
qed

theorem exchange_success_after_store_witness:
  "field (fst (setupPlaidProxyRoutes sample_world sample_env sample_time
                 (request_to ExchangeToken (Some sample_token)))) ''success'' = JBool True \<and>
   (\<exists>agentId access_token item_id url payload st response.
      snd (setupPlaidProxyRoutes sample_world sample_env sample_time
             (request_to ExchangeToken (Some sample_token))) =
        [Fetch url payload, GetAgentStub agentId,
         StorePlaidAccessToken agentId access_token item_id] \<and>
      fetch sample_world url payload = Responded st (Inr response) \<and> ok st \<and>
      get response ''access_token'' = Inr access_token \<and>
      storePlaidAccessToken sample_world agentId access_token item_id = None)"
proof -
  have "exchange_token_route sample_world sample_env sample_time
          (request_to ExchangeToken (Some sample_token))
        = (json [(''success'', JBool True), (''item_id'', JStr (js ''item-1''))] 200,
           [Fetch (getPlaidBaseUrl sample_env @ js ''/item/public_token/exchange'')
              (plaid_payload sample_env [(''public_token'', JStr (js ''public-sandbox-1''))]),
            GetAgentStub sample_agent,
            StorePlaidAccessToken sample_agent (JStr (js ''access-sandbox-1''))
              (JStr (js ''item-1''))])"
    by (simp add: exchange_token_route_def sample_authenticated)
       (simp add: request_to_def get_def catch_def andThen_def lift_def pure_def
          plaidRequest_def Let_def sample_env_def sample_world_def missing_def ok_def
          call_getAgentStub_def call_storePlaidAccessToken_def)
  then have s: "field (fst (setupPlaidProxyRoutes sample_world sample_env sample_time
                  (request_to ExchangeToken (Some sample_token)))) ''success'' = JBool True"
    by (simp add: dispatch_endpoint [OF request_to_endpoint] field_json)
  show ?thesis
    using s exchange_success_after_store [OF _ _ s] by (simp add: request_to_def)
qed

text \<open>
  C8, as stated, fails: the agent holds an access token, the provider answers the
  transactions call with status 400 and an error of its own, and the proxy answers 500.
\<close>

theorem provider_4xx_counterexample:
  "snd (setupPlaidProxyRoutes expired_world sample_env sample_time
          (request_to Transactions (Some sample_token)))
     = [GetAgentStub sample_agent, GetPlaidAccessToken sample_agent,
        Fetch (js ''https://sandbox.plaid.com/transactions/sync'')
          (plaid_payload sample_env [(''access_token'', JStr (js ''access-sandbox-1''))])] \<and>
   fetch expired_world (js ''https://sandbox.plaid.com/transactions/sync'')
       (plaid_payload sample_env [(''access_token'', JStr (js ''access-sandbox-1''))])
     = Responded 400
         (Inr (JObj [(js ''error_code'', JStr (js ''ITEM_LOGIN_REQUIRED'')),
                     (js ''error_message'', JStr (js ''login required''))])) \<and>
   status (fst (setupPlaidProxyRoutes expired_world sample_env sample_time
                  (request_to Transactions (Some sample_token)))) = 500"
  by (simp add: dispatch_endpoint [OF request_to_endpoint] expired_run)
     (simp add: expired_world_def)

text \<open>
  C8, amended. When the provider answers a proxied call with a status outside 200..299,
  a 4xx of its own included, \<open>plaidRequest\<close> throws and the handler's \<open>catch\<close> clause
  answers with status 500 and \<open>success: false\<close>.
\<close>

theorem provider_error_is_500:
  assumes "req_method req = endpoint_method ep" and "req_path req = endpoint_path ep"
    and "Fetch url payload \<in> set (snd (setupPlaidProxyRoutes w e now req))"
    and "fetch w url payload = Responded st settled" and "\<not> ok st"
  shows "status (fst (setupPlaidProxyRoutes w e now req)) = 500 \<and>
         field (fst (setupPlaidProxyRoutes w e now req)) ''success'' = JBool False"
proof -
  note d = dispatch_endpoint [OF assms(1,2)]
  from assms(3) have "Fetch url payload \<in> set (snd (handler ep w e now req))"
    by (simp add: d)
  from handler_provider_error [OF this assms(4,5)]
  obtain x fb where "fst (handler ep w e now req) = failure x fb" by blast
  then show ?thesis by (simp add: d field_failure)
qed

theorem provider_error_is_500_witness:
  "Fetch (js ''https://sandbox.plaid.com/transactions/sync'')
       (plaid_payload sample_env [(''access_token'', JStr (js ''access-sandbox-1''))])
     \<in> set (snd (setupPlaidProxyRoutes expired_world sample_env sample_time
                   (request_to Transactions (Some sample_token)))) \<and>
   fetch expired_world (js ''https://sandbox.plaid.com/transactions/sync'')
       (plaid_payload sample_env [(''access_token'', JStr (js ''access-sandbox-1''))])
     = Responded 400
         (Inr (JObj [(js ''error_code'', JStr (js ''ITEM_LOGIN_REQUIRED'')),
                     (js ''error_message'', JStr (js ''login required''))])) \<and>
   \<not> ok 400 \<and>
   status (fst (setupPlaidProxyRoutes expired_world sample_env sample_time
                  (request_to Transactions (Some sample_token)))) = 500 \<and>
   field (fst (setupPlaidProxyRoutes expired_world sample_env sample_time
                  (request_to Transactions (Some sample_token)))) ''success'' = JBool False"
proof -
  have a: "Fetch (js ''https://sandbox.plaid.com/transactions/sync'')
       (plaid_payload sample_env [(''access_token'', JStr (js ''access-sandbox-1''))])
     \<in> set (snd (setupPlaidProxyRoutes expired_world sample_env sample_time
                   (request_to Transactions (Some sample_token))))"
    by (simp add: dispatch_endpoint [OF request_to_endpoint] expired_run)
  have b: "fetch expired_world (js ''https://sandbox.plaid.com/transactions/sync'')
       (plaid_payload sample_env [(''access_token'', JStr (js ''access-sandbox-1''))])
     = Responded 400
         (Inr (JObj [(js ''error_code'', JStr (js ''ITEM_LOGIN_REQUIRED'')),
                     (js ''error_message'', JStr (js ''login required''))]))"
    by (simp add: expired_world_def)
  have c: "\<not> ok 400" by (simp add: ok_def)
  show ?thesis
    using a b c provider_error_is_500 [OF request_to_endpoint a b c] by simp
qed

text \<open>
  C10. The link-token endpoint never answers with \<open>needsConnection\<close>. With a valid
  preview token it does not ask the agent for anything: when the platform's client id or
  secret is missing it answers 500 with \<open>success: false\<close> and calls nobody; otherwise
  its one call is the provider's \<open>/link/token/create\<close>, with the platform's client id and
  secret, whatever the tenant has stored.
\<close>

theorem link_token_needs_only_token:
  assumes "req_method req = POST" and "req_path req = endpoint_path LinkToken"
  shows "field (fst (setupPlaidProxyRoutes w e now req)) ''needsConnection'' = JUndefined \<and>
         (header_X_Preview_Token req = Some token \<and>
          validatePreviewToken e now token = Inr (Some agentId) \<and> agentId \<noteq> [] \<longrightarrow>
            (missing (PLAID_CLIENT_ID e) \<or> missing (PLAID_SECRET e) \<longrightarrow>
               status (fst (setupPlaidProxyRoutes w e now req)) = 500 \<and>
               field (fst (setupPlaidProxyRoutes w e now req)) ''success'' = JBool False \<and>
               snd (setupPlaidProxyRoutes w e now req) = []) \<and>
            (\<not> missing (PLAID_CLIENT_ID e) \<and> \<not> missing (PLAID_SECRET e) \<longrightarrow>
               (\<exists>payload.
                  snd (setupPlaidProxyRoutes w e now req)
                    = [Fetch (getPlaidBaseUrl e @ js ''/link/token/create'') payload] \<and>
                  get payload ''client_id'' = Inr (JStr (the (PLAID_CLIENT_ID e))) \<and>
                  get payload ''secret'' = Inr (JStr (the (PLAID_SECRET e))))))"
proof -
  have d: "setupPlaidProxyRoutes w e now req =
             ((fst (link_token_route w e now req))\<lparr>allow_origin := allowed_origin w req\<rparr>,
              snd (link_token_route w e now req))"
    using dispatch_endpoint [of req LinkToken] assms by simp
  have n: "field (fst (setupPlaidProxyRoutes w e now req)) ''needsConnection'' = JUndefined"
    by (simp add: d link_token_fields)
  {
    assume "header_X_Preview_Token req = Some token"
      and "validatePreviewToken e now token = Inr (Some agentId)" and "agentId \<noteq> []"
    then have auth: "authenticate e now req = Inr agentId" by (rule authenticate_valid)
    have "missing (PLAID_CLIENT_ID e) \<or> missing (PLAID_SECRET e) \<longrightarrow>
               status (fst (setupPlaidProxyRoutes w e now req)) = 500 \<and>
               field (fst (setupPlaidProxyRoutes w e now req)) ''success'' = JBool False \<and>
               snd (setupPlaidProxyRoutes w e now req) = []"
      using link_token_valid(1) [OF auth, of w] by (simp add: d field_failure)
    moreover have "\<not> missing (PLAID_CLIENT_ID e) \<and> \<not> missing (PLAID_SECRET e) \<longrightarrow>
               (\<exists>payload.
                  snd (setupPlaidProxyRoutes w e now req)
                    = [Fetch (getPlaidBaseUrl e @ js ''/link/token/create'') payload] \<and>
                  get payload ''client_id'' = Inr (JStr (the (PLAID_CLIENT_ID e))) \<and>
                  get payload ''secret'' = Inr (JStr (the (PLAID_SECRET e))))"
      using link_token_valid(2) [OF auth, of w] payload_credentials [of _ e]
      unfolding d snd_conv by blast
    ultimately have "(missing (PLAID_CLIENT_ID e) \<or> missing (PLAID_SECRET e) \<longrightarrow>
               status (fst (setupPlaidProxyRoutes w e now req)) = 500 \<and>
               field (fst (setupPlaidProxyRoutes w e now req)) ''success'' = JBool False \<and>
               snd (setupPlaidProxyRoutes w e now req) = []) \<and>
            (\<not> missing (PLAID_CLIENT_ID e) \<and> \<not> missing (PLAID_SECRET e) \<longrightarrow>
               (\<exists>payload.
                  snd (setupPlaidProxyRoutes w e now req)
                    = [Fetch (getPlaidBaseUrl e @ js ''/link/token/create'') payload] \<and>
                  get payload ''client_id'' = Inr (JStr (the (PLAID_CLIENT_ID e))) \<and>
                  get payload ''secret'' = Inr (JStr (the (PLAID_SECRET e)))))"
      by blast
  }
  with n show ?thesis by blast
qed

lemma unconfigured_generated:
  "validatePreviewToken unconfigured_env sample_time sample_token = Inr (Some sample_agent)"
proof -
  have "generatePreviewToken unconfigured_env sample_time sample_agent = Inr sample_token"
    by (rule sample_generated_with) (simp add: unconfigured_env_def)
  then show ?thesis by (simp add: validate_generated maxAge_def)
qed

theorem link_token_needs_only_token_witness:
  "validatePreviewToken sample_env sample_time sample_token = Inr (Some sample_agent) \<and>
   getPlaidAccessToken sample_world sample_agent = Inr JNull \<and>
   field (fst (setupPlaidProxyRoutes sample_world sample_env sample_time
                 (request_to LinkToken (Some sample_token)))) ''needsConnection'' = JUndefined \<and>
   (\<exists>payload.
      snd (setupPlaidProxyRoutes sample_world sample_env sample_time
             (request_to LinkToken (Some sample_token)))
        = [Fetch (getPlaidBaseUrl sample_env @ js ''/link/token/create'') payload] \<and>
      get payload ''client_id'' = Inr (JStr (js ''client-id'')) \<and>
      get payload ''secret'' = Inr (JStr (js ''plaid-secret''))) \<and>
   missing (PLAID_CLIENT_ID unconfigured_env) \<and>
   status (fst (setupPlaidProxyRoutes sample_world unconfigured_env sample_time
                  (request_to LinkToken (Some sample_token)))) = 500 \<and>
   field (fst (setupPlaidProxyRoutes sample_world unconfigured_env sample_time
                 (request_to LinkToken (Some sample_token)))) ''success'' = JBool False \<and>
   snd (setupPlaidProxyRoutes sample_world unconfigured_env sample_time
          (request_to LinkToken (Some sample_token))) = []"
proof -
  have v: "validatePreviewToken sample_env sample_time sample_token = Inr (Some sample_agent)"
    by (simp add: validate_generated [OF sample_generated] maxAge_def)
  have h: "header_X_Preview_Token (request_to LinkToken (Some sample_token)) = Some sample_token"
    by (simp add: request_to_def)
  have n: "sample_agent \<noteq> []" by (simp add: sample_agent_def)
  have g: "getPlaidAccessToken sample_world sample_agent = Inr JNull"
    by (simp add: sample_world_def)
  have m: "missing (PLAID_CLIENT_ID unconfigured_env)"
    by (simp add: unconfigured_env_def missing_def)
  have c: "the (PLAID_CLIENT_ID sample_env) = js ''client-id''"
    "the (PLAID_SECRET sample_env) = js ''plaid-secret''"
    by (simp_all add: sample_env_def)
  have mp: "endpoint_method LinkToken = POST" by simp
  note r = request_to_endpoint [of LinkToken "Some sample_token"]
  show ?thesis
    using v g m h n sample_env_configured unconfigured_generated c
      link_token_needs_only_token [OF r(1) [unfolded mp] r(2),
        of sample_world sample_env sample_time sample_token sample_agent]
      link_token_needs_only_token [OF r(1) [unfolded mp] r(2),
        of sample_world unconfigured_env sample_time sample_token sample_agent]
    by simp
qed

section \<open>Properties of the configuration phase\<close>

lemma Number_toString_nat: "Number_toString (int n) = digits n"
  by (simp add: Number_toString_def)

lemma digits_inj: "digits m = digits n \<Longrightarrow> m = n"
  using digits_value_digits by metis

lemma card_id_inj:
  "js ''config-'' @ Number_toString (int m) = js ''config-'' @ Number_toString (int n) \<longleftrightarrow> m = n"
  using digits_inj by (auto simp: Number_toString_nat)

lemma awaiting_card: "js ''config-1700000000000'' = js ''config-'' @ Number_toString sample_time"
proof -
  have "Number_toString sample_time = js ''1700000000000''"
    by (simp add: sample_time_def Number_toString_def digits.simps js_def)
  then show ?thesis by (simp add: js_append)
qed

text \<open>
  C9, as stated, fails. The first run of the configuration phase at \<open>sample_time\<close>
  leaves \<open>awaiting_state\<close>, with one card broadcast. A second run one second later, with
  that configuration still pending, broadcasts another card, and the id of that card and
  of the stored configuration is a new one.
\<close>

theorem second_gate_counterexample:
  "executeConfigurationPhase plaid_agent sample_time \<lparr>pending = None\<rparr>
     = (IDLE, awaiting_state,
        [\<lparr>cardId = js ''config-'' @ Number_toString sample_time,
          title = js ''Connect External Services'',
          card_message = js ''To build with real data, please connect the following services:'',
          services = [\<lparr>service_id = js ''plaid'', service_name = js ''Plaid'',
                       service_type = oauth, service_status = js ''pending''\<rparr>],
          actions = [js ''skip'', js ''continue'']\<rparr>]) \<and>
   map cardId (snd (snd (executeConfigurationPhase plaid_agent (sample_time + 1000) awaiting_state)))
     = [js ''config-'' @ Number_toString (sample_time + 1000)] \<and>
   map_option configCardId
       (pending (fst (snd (executeConfigurationPhase plaid_agent (sample_time + 1000) awaiting_state))))
     = Some (js ''config-'' @ Number_toString (sample_time + 1000)) \<and>
   map_option configCardId (pending awaiting_state)
     = Some (js ''config-'' @ Number_toString sample_time) \<and>
   js ''config-'' @ Number_toString (sample_time + 1000)
     \<noteq> js ''config-'' @ Number_toString sample_time"
proof -
  have "js ''config-'' @ Number_toString (int 1700000001000)
          \<noteq> js ''config-'' @ Number_toString (int 1700000000000)"
    by (simp only: card_id_inj)
  then have "js ''config-'' @ Number_toString (sample_time + 1000)
          \<noteq> js ''config-'' @ Number_toString sample_time"
    by (simp add: sample_time_def)
  then show ?thesis
    by (simp add: executeConfigurationPhase_def plaid_agent_def awaiting_state_def awaiting_card
        Let_def)
qed

text \<open>
  C9, amended. The agent's state has one \<open>pendingConfiguration\<close> field, so at most one
  pending configuration is stored. \<open>executeConfigurationPhase\<close> does not read it: whenever
  a detected service has no secret, and whatever is pending, it broadcasts exactly one
  card, whose id is \<open>config-\<close> followed by the current time and which lists the services
  without a secret, stores a pending configuration with that id and those services in
  place of the previous one, and returns \<open>IDLE\<close>.
\<close>

theorem gate_ignores_pending:
  assumes "\<exists>service \<in> set (detectRequiredServices a). \<not> has_secret a service"
  shows "\<exists>card.
           executeConfigurationPhase a now (st\<lparr>pending := p\<rparr>)
             = (IDLE,
                st\<lparr>pending := Some \<lparr>requiredServices =
                                       filter (\<lambda>s. \<not> has_secret a s) (detectRequiredServices a),
                                     configuredServices = [],
                                     configCardId = js ''config-'' @ Number_toString now\<rparr>\<rparr>,
                [card]) \<and>
           cardId card = js ''config-'' @ Number_toString now \<and>
           map service_id (services card)
             = filter (\<lambda>s. \<not> has_secret a s) (detectRequiredServices a)"
proof -
  from assms have "filter (\<lambda>s. \<not> has_secret a s) (detectRequiredServices a) \<noteq> []"
    by (auto simp: filter_empty_conv)
  then show ?thesis
    by (simp add: executeConfigurationPhase_def Let_def comp_def)
qed

theorem gate_ignores_pending_witness:
  "(\<exists>service. service \<in> set (detectRequiredServices plaid_agent) \<and>
               \<not> has_secret plaid_agent service) \<and>
   (\<exists>card.
      executeConfigurationPhase plaid_agent (sample_time + 1000) (awaiting_state\<lparr>pending := pending awaiting_state\<rparr>)
        = (IDLE,
           awaiting_state\<lparr>pending := Some \<lparr>requiredServices = [js ''plaid''],
                                            configuredServices = [],
                                            configCardId =
                                              js ''config-'' @ Number_toString (sample_time + 1000)\<rparr>\<rparr>,
           [card]) \<and>
      cardId card = js ''config-'' @ Number_toString (sample_time + 1000) \<and>
      map service_id (services card) = [js ''plaid''])"
proof -
  have h: "\<exists>service \<in> set (detectRequiredServices plaid_agent). \<not> has_secret plaid_agent service"
    by (simp add: plaid_agent_def)
  have f: "filter (\<lambda>s. \<not> has_secret plaid_agent s) (detectRequiredServices plaid_agent)
             = [js ''plaid'']"
    by (simp add: plaid_agent_def)
  show ?thesis
    using h gate_ignores_pending [OF h, where now = "sample_time + 1000"
        and st = awaiting_state and p = "pending awaiting_state"]
    unfolding f by blast
qed

end
